theory Spec2Isabelle
  imports Main "HOL-Library.AList"
begin

section \<open>JavaScript values and items\<close>

text \<open>
  The vault keeps plain JavaScript objects: the items made by the handlers, the documents
  read from Firestore and the entries of the legacy \<open>localStorage\<close> list. A value is
  modelled by \<open>jsval\<close> and an object by its own properties in insertion order. Numbers
  are the finite integral ones (lengths, byte sizes, \<open>Date.now()\<close> stamps): fractions,
  NaN and the infinities are not values of the model. Strings are lists of \<open>char\<close>,
  one per code unit, so only code units below 256 occur. Two values are strictly equal
  (\<open>===\<close>) when they are the same \<open>jsval\<close>; for arrays and objects, which JavaScript
  compares by identity, that is equality of their contents. An object is taken to have
  no \<open>toString\<close> or \<open>valueOf\<close> property of its own.
\<close>

datatype jsval =
    JUndefined
  | JNull
  | JBool bool
  | JNum int
  | JStr string
  | JArr "jsval list"
  | JObj "(string \<times> jsval) list"

type_synonym item = "(string \<times> jsval) list"

text \<open>\<open>item.k\<close>: an absent property reads as \<open>undefined\<close>.\<close>

definition get_prop :: "item \<Rightarrow> string \<Rightarrow> jsval" where
  "get_prop item k = (case map_of item k of None \<Rightarrow> JUndefined | Some v \<Rightarrow> v)"

text \<open>\<open>{ ...item, k: v }\<close>: an own property keeps its place, a new one goes last.\<close>

definition set_prop :: "item \<Rightarrow> string \<Rightarrow> jsval \<Rightarrow> item" where
  "set_prop item k v = AList.update k v item"

text \<open>ToBoolean, as \<open>!x\<close>, \<open>x && y\<close> and \<open>if (x)\<close> apply it.\<close>

fun truthy :: "jsval \<Rightarrow> bool" where
  "truthy JUndefined = False"
| "truthy JNull = False"
| "truthy (JBool b) = b"
| "truthy (JNum n) = (n \<noteq> 0)"
| "truthy (JStr s) = (s \<noteq> [])"
| "truthy (JArr xs) = True"
| "truthy (JObj ps) = True"

fun js_typeof :: "jsval \<Rightarrow> string" where
  "js_typeof JUndefined = ''undefined''"
| "js_typeof JNull = ''object''"
| "js_typeof (JBool b) = ''boolean''"
| "js_typeof (JNum n) = ''number''"
| "js_typeof (JStr s) = ''string''"
| "js_typeof (JArr xs) = ''object''"
| "js_typeof (JObj ps) = ''object''"

text \<open>Decimal digits of a natural number, and ToString of a value.\<close>

fun digits :: "nat \<Rightarrow> string" where
  "digits n =
     (if n < 10 then [char_of (48 + n)]
      else digits (n div 10) @ [char_of (48 + n mod 10)])"

declare digits.simps [simp del]

definition int_to_string :: "int \<Rightarrow> string" where
  "int_to_string i = (if i < 0 then CHR ''-'' # digits (nat (- i)) else digits (nat i))"

fun join_with :: "string \<Rightarrow> string list \<Rightarrow> string" where
  "join_with sep [] = []"
| "join_with sep [s] = s"
| "join_with sep (s # t # ss) = s @ sep @ join_with sep (t # ss)"

fun js_toString :: "jsval \<Rightarrow> string" where
  "js_toString JUndefined = ''undefined''"
| "js_toString JNull = ''null''"
| "js_toString (JBool b) = (if b then ''true'' else ''false'')"
| "js_toString (JNum n) = int_to_string n"
| "js_toString (JStr s) = s"
| "js_toString (JArr xs) =
     join_with '',''
       (map (\<lambda>x. if x = JUndefined \<or> x = JNull then [] else js_toString x) xs)"
| "js_toString (JObj ps) = ''[object Object]''"

text \<open>
  The builtins of the language that the code calls and that are not part of it:
  \<open>JSON.parse\<close> (\<open>None\<close>: it throws), the number a string converts to
  (\<open>None\<close>: NaN) and the time value of \<open>new Date(v)\<close> (\<open>None\<close>: an invalid date).
\<close>

record builtins =
  JSON_parse :: "string \<Rightarrow> jsval option"
  StringToNumber :: "string \<Rightarrow> int option"
  DateValue :: "jsval \<Rightarrow> int option"

text \<open>ToNumber, as the operator \<open>-\<close> applies it to each operand.\<close>

fun to_number :: "builtins \<Rightarrow> jsval \<Rightarrow> int option" where
  "to_number js JUndefined = None"
| "to_number js JNull = Some 0"
| "to_number js (JBool b) = Some (if b then 1 else 0)"
| "to_number js (JNum n) = Some n"
| "to_number js (JStr s) = StringToNumber js s"
| "to_number js (JArr xs) = StringToNumber js (js_toString (JArr xs))"
| "to_number js (JObj ps) = StringToNumber js (js_toString (JObj ps))"

text \<open>\<open>x - y\<close> on two converted operands: NaN as soon as one of them is NaN.\<close>

definition js_minus :: "int option \<Rightarrow> int option \<Rightarrow> int option" where
  "js_minus x y =
     (case x of None \<Rightarrow> None
      | Some a \<Rightarrow> (case y of None \<Rightarrow> None | Some b \<Rightarrow> Some (a - b)))"

text \<open>
  \<open>Array.prototype.sort(cmp)\<close>: a stable sort, where a comparator result that is NaN
  counts as \<open>0\<close>. The model is the stable insertion sort; every stable sort gives the
  same array when the comparator is consistent.
\<close>

fun sort_insert :: "('a \<Rightarrow> 'a \<Rightarrow> int option) \<Rightarrow> 'a \<Rightarrow> 'a list \<Rightarrow> 'a list" where
  "sort_insert cmp x [] = [x]"
| "sort_insert cmp x (y # ys) =
     (if (case cmp x y of None \<Rightarrow> 0 | Some d \<Rightarrow> d) \<le> 0 then x # y # ys
      else y # sort_insert cmp x ys)"

definition js_sort :: "('a \<Rightarrow> 'a \<Rightarrow> int option) \<Rightarrow> 'a list \<Rightarrow> 'a list" where
  "js_sort cmp xs = foldr (sort_insert cmp) xs []"

text \<open>\<open>String.prototype.trim\<close> on the white space that fits a \<open>char\<close>.\<close>

definition is_space :: "char \<Rightarrow> bool" where
  "is_space c = (c \<in> set [CHR 0x09, CHR 0x0A, CHR 0x0B, CHR 0x0C, CHR 0x0D, CHR 0x20, CHR 0xA0])"

definition js_trim :: "string \<Rightarrow> string" where
  "js_trim s = rev (dropWhile is_space (rev (dropWhile is_space s)))"

section \<open>Constants of the application\<close>

definition MAX_FILE_SIZE :: int where
  "MAX_FILE_SIZE = 10 * 1024 * 1024"

definition MAX_NOTE_LENGTH :: nat where
  "MAX_NOTE_LENGTH = 5000"

definition MAX_ITEMS :: nat where
  "MAX_ITEMS = 500"

definition ALLOWED_FILE_TYPES :: "string list" where
  "ALLOWED_FILE_TYPES =
    [''image/jpeg'', ''image/png'', ''image/gif'', ''image/webp'', ''image/svg+xml'',
     ''application/pdf'',
     ''text/plain'', ''text/csv'', ''text/html'', ''text/css'', ''text/javascript'',
     ''application/json'',
     ''application/msword'',
     ''application/vnd.openxmlformats-officedocument.wordprocessingml.document'',
     ''application/vnd.ms-excel'',
     ''application/vnd.openxmlformats-officedocument.spreadsheetml.sheet'',
     ''application/vnd.ms-powerpoint'',
     ''application/vnd.openxmlformats-officedocument.presentationml.presentation'',
     ''application/zip'', ''application/x-rar-compressed'',
     ''audio/mpeg'', ''audio/wav'', ''audio/ogg'',
     ''video/mp4'', ''video/webm'', ''video/ogg'']"

section \<open>The environment of one handler run\<close>

text \<open>
  What the browser and the network answer while a handler runs. For IndexedDB: whether
  opening the database, the count request, the write transaction or the \<open>getAll\<close>
  request fails. For Firebase: whether \<open>getDocs\<close> rejects and, for a given item,
  whether the upload of its payload (\<open>fetch\<close>, \<open>blob\<close>, \<open>uploadBytes\<close>),
  \<open>setDoc\<close>, \<open>deleteDoc\<close> or \<open>deleteObject\<close> rejects; the download URL of a
  storage path (\<open>None\<close>: \<open>getDownloadURL\<close> rejects). Then the clock \<open>Date.now()\<close>
  and the answer to \<open>window.confirm\<close>.
\<close>

record env =
  open_fails :: bool
  count_fails :: bool
  write_fails :: bool
  read_fails :: bool
  getDocs_fails :: bool
  upload_fails :: "item \<Rightarrow> bool"
  setDoc_fails :: "item \<Rightarrow> bool"
  deleteDoc_fails :: "item \<Rightarrow> bool"
  deleteObject_fails :: "item \<Rightarrow> bool"
  getDownloadURL :: "string \<Rightarrow> string option"
  Date_now :: int
  confirm :: bool

datatype error = LocalStoreError | CloudError | TypeError

section \<open>The local store (IndexedDB, object store \<open>items\<close>, key path \<open>id\<close>)\<close>

text \<open>
  The object store is the list of its records, kept in the order of the write (the key
  order in which \<open>getAll\<close> returns them is not modelled). \<open>store.add\<close> needs a valid
  key that is not yet in the store. Whenever the write transaction does not complete it
  aborts, and the store is as before.
\<close>

fun valid_key :: "jsval \<Rightarrow> bool" where
  "valid_key (JNum n) = True"
| "valid_key (JStr s) = True"
| "valid_key (JArr xs) = list_all valid_key xs"
| "valid_key v = False"

definition addable :: "item list \<Rightarrow> bool" where
  "addable items =
     (list_all (\<lambda>item. valid_key (get_prop item ''id'')) items
      \<and> distinct (map (\<lambda>item. get_prop item ''id'') items))"

text \<open>
  The adds are all issued from the callback of the clear request, in the order of the
  array. On a record whose key is not valid, \<open>add\<close> throws there: the transaction
  aborts, and the adds issued before it fail with an error event that reaches
  \<open>transaction.onerror\<close>. When that record is the first one, no request is pending:
  only the \<open>abort\<close> event fires, which the code does not listen to.
\<close>

fun first_add_throws :: "item list \<Rightarrow> bool" where
  "first_add_throws [] = False"
| "first_add_throws (item # rest) = (\<not> valid_key (get_prop item ''id''))"

text \<open>
  How the promise of \<open>saveItemsToDB\<close> ends: resolved by the early return of the
  guard, resolved by \<open>oncomplete\<close>, rejected, or never settled.
\<close>

datatype save_outcome = Prevented | Saved | SaveFailed | NeverSettles

text \<open>
  \<open>saveItemsToDB(items, forceEmpty)\<close> on the store \<open>db\<close>: the outcome and the store
  after the call. \<open>write_fails\<close> is a request of the write transaction that fails for
  a cause other than the keys of the records.
\<close>

definition saveItemsToDB :: "env \<Rightarrow> item list \<Rightarrow> bool \<Rightarrow> item list \<Rightarrow> save_outcome \<times> item list" where
  "saveItemsToDB e items forceEmpty db =
     (if open_fails e then (SaveFailed, db)
      else
        let existingCount = (if count_fails e then 0 else length db) in
        if length items = 0 \<and> \<not> forceEmpty \<and> existingCount > 0 then (Prevented, db)
        else if write_fails e then (SaveFailed, db)
        else if first_add_throws items then (NeverSettles, db)
        else if \<not> addable items then (SaveFailed, db)
        else (Saved, items))"

text \<open>
  \<open>loadItemsFromDB()\<close>: all records, sorted by
  \<open>new Date(b.createdAt) - new Date(a.createdAt)\<close>.
\<close>

definition by_createdAt :: "builtins \<Rightarrow> item \<Rightarrow> item \<Rightarrow> int option" where
  "by_createdAt js a b =
     js_minus (DateValue js (get_prop b ''createdAt'')) (DateValue js (get_prop a ''createdAt''))"

definition loadItemsFromDB :: "builtins \<Rightarrow> env \<Rightarrow> item list \<Rightarrow> error + item list" where
  "loadItemsFromDB js e db =
     (if open_fails e \<or> read_fails e then Inl LocalStoreError
      else Inr (js_sort (by_createdAt js) db))"

section \<open>The cloud adapter (\<open>firebase.js\<close>)\<close>

text \<open>
  The Firestore collection is the list of its documents, each under its name, in the
  order a query returns them; the storage bucket maps a path to the uploaded payload,
  which is identified with the data URL it was decoded from. The two credentials that
  \<open>isFirebaseConfigured\<close> tests are fields: they are the configuration the deployer
  writes into the file. \<open>db\<close> is non-null when the configuration is set and the
  initialisation did not throw.
\<close>

record cloud =
  apiKey :: string
  projectId :: string
  init_ok :: bool
  docs :: "(string \<times> item) list"
  blobs :: "(string \<times> string) list"

definition isFirebaseConfigured :: "cloud \<Rightarrow> bool" where
  "isFirebaseConfigured c = (apiKey c \<noteq> ''YOUR_API_KEY'' \<and> projectId c \<noteq> ''YOUR_PROJECT_ID'')"

definition db_ready :: "cloud \<Rightarrow> bool" where
  "db_ready c = (isFirebaseConfigured c \<and> init_ok c)"

definition checkFirebaseConfig :: "cloud \<Rightarrow> bool" where
  "checkFirebaseConfig c = isFirebaseConfigured c"

definition startsWith :: "string \<Rightarrow> string \<Rightarrow> bool" where
  "startsWith s p = (take (length p) s = p)"

definition storage_path :: "item \<Rightarrow> string" where
  "storage_path item =
     ''files/'' @ js_toString (get_prop item ''id'') @ ''_'' @ js_toString (get_prop item ''name'')"

text \<open>The \<open>else\<close> branch of \<open>saveItemToCloud\<close>: the record is written as it is, stamped.\<close>

definition save_directly :: "env \<Rightarrow> item \<Rightarrow> cloud \<Rightarrow> (error + item option) \<times> cloud" where
  "save_directly e item c =
     (let itemData = set_prop item ''updatedAt'' (JNum (Date_now e)) in
      if setDoc_fails e item then (Inl CloudError, c)
      else (Inr (Some itemData),
            c\<lparr>docs := AList.update (js_toString (get_prop item ''id'')) itemData (docs c)\<rparr>))"

text \<open>
  \<open>saveItemToCloud(item)\<close>: the returned value (\<open>None\<close> is \<open>null\<close>) or the error
  thrown, and the cloud after the call. \<open>item.id.toString()\<close> throws on \<open>undefined\<close>
  and \<open>null\<close>; \<open>item.data.startsWith\<close> throws when the truthy payload is no string.
\<close>

definition saveItemToCloud :: "env \<Rightarrow> item \<Rightarrow> cloud \<Rightarrow> (error + item option) \<times> cloud" where
  "saveItemToCloud e item c =
     (if \<not> db_ready c then (Inr None, c)
      else if get_prop item ''id'' = JUndefined \<or> get_prop item ''id'' = JNull
        then (Inl TypeError, c)
      else if get_prop item ''type'' = JStr ''file'' \<and> truthy (get_prop item ''data'') then
        (case get_prop item ''data'' of
           JStr payload \<Rightarrow>
             if startsWith payload ''data:'' then
               (if upload_fails e item then (Inl CloudError, c)
                else
                  let c1 = c\<lparr>blobs := AList.update (storage_path item) payload (blobs c)\<rparr> in
                  case getDownloadURL e (storage_path item) of
                    None \<Rightarrow> (Inl CloudError, c1)
                  | Some downloadURL \<Rightarrow>
                      let itemData =
                            set_prop
                              (set_prop (set_prop item ''data'' (JStr downloadURL))
                                 ''isCloudStored'' (JBool True))
                              ''updatedAt'' (JNum (Date_now e))
                      in if setDoc_fails e item then (Inl CloudError, c1)
                         else (Inr (Some itemData),
                               c1\<lparr>docs := AList.update (js_toString (get_prop item ''id''))
                                             itemData (docs c1)\<rparr>))
             else save_directly e item c
         | _ \<Rightarrow> (Inl TypeError, c))
      else save_directly e item c)"

text \<open>The comparator \<open>(a, b) => b.id - a.id\<close>.\<close>

definition by_id :: "builtins \<Rightarrow> item \<Rightarrow> item \<Rightarrow> int option" where
  "by_id js a b = js_minus (to_number js (get_prop b ''id'')) (to_number js (get_prop a ''id''))"

definition getDocs :: "env \<Rightarrow> cloud \<Rightarrow> error + item list" where
  "getDocs e c = (if getDocs_fails e then Inl CloudError else Inr (map snd (docs c)))"

text \<open>
  \<open>loadItemsFromCloud()\<close>: the \<open>try\<close> block, then the function with its \<open>catch\<close>,
  which returns the empty array.
\<close>

definition loadItemsFromCloud_try :: "builtins \<Rightarrow> env \<Rightarrow> cloud \<Rightarrow> error + item list" where
  "loadItemsFromCloud_try js e c =
     (case getDocs e c of
        Inl err \<Rightarrow> Inl err
      | Inr items \<Rightarrow> Inr (js_sort (by_id js) items))"

definition loadItemsFromCloud :: "builtins \<Rightarrow> env \<Rightarrow> cloud \<Rightarrow> error + item list" where
  "loadItemsFromCloud js e c =
     (if \<not> db_ready c then Inr []
      else (case loadItemsFromCloud_try js e c of
              Inl err \<Rightarrow> Inr []
            | Inr items \<Rightarrow> Inr items))"

text \<open>
  \<open>deleteItemFromCloud(item)\<close>: the document goes first; the object in storage goes
  when the item is a file marked as stored there, and a failure of that is swallowed.
\<close>

definition deleteItemFromCloud :: "env \<Rightarrow> item \<Rightarrow> cloud \<Rightarrow> (error + unit) \<times> cloud" where
  "deleteItemFromCloud e item c =
     (if \<not> db_ready c then (Inr (), c)
      else if get_prop item ''id'' = JUndefined \<or> get_prop item ''id'' = JNull
        then (Inl TypeError, c)
      else if deleteDoc_fails e item then (Inl CloudError, c)
      else
        let c1 = c\<lparr>docs := AList.delete (js_toString (get_prop item ''id'')) (docs c)\<rparr> in
        if get_prop item ''type'' = JStr ''file'' \<and> truthy (get_prop item ''isCloudStored'') then
          (if deleteObject_fails e item then (Inr (), c1)
           else (Inr (), c1\<lparr>blobs := AList.delete (storage_path item) (blobs c1)\<rparr>))
        else (Inr (), c1))"

text \<open>The array that the listener of \<open>subscribeToItems\<close> hands to its callback.\<close>

definition snapshot_items :: "builtins \<Rightarrow> cloud \<Rightarrow> item list" where
  "snapshot_items js c = js_sort (by_id js) (map snd (docs c))"

section \<open>Helpers of the application\<close>

definition replaceAll :: "char \<Rightarrow> string \<Rightarrow> string \<Rightarrow> string" where
  "replaceAll c r s = concat (map (\<lambda>x. if x = c then r else [x]) s)"

definition sanitizeText :: "string \<Rightarrow> string" where
  "sanitizeText text =
     js_trim
       (replaceAll (CHR 0x27) ''&#x27;''
         (replaceAll (CHR 0x22) ''&quot;''
           (replaceAll CHR ''>'' ''&gt;''
             (replaceAll CHR ''<'' ''&lt;''
               (replaceAll CHR ''&'' ''&amp;'' text)))))"

text \<open>
  \<open>safeJSONParse(data, fallback)\<close>. An array has no property \<open>id\<close> or \<open>type\<close>, so
  every entry that passes the filter is a plain object.
\<close>

fun entry_prop :: "jsval \<Rightarrow> string \<Rightarrow> jsval" where
  "entry_prop (JObj ps) k = get_prop ps k"
| "entry_prop v k = JUndefined"

definition entry_ok :: "jsval \<Rightarrow> bool" where
  "entry_ok v =
     (truthy v \<and> js_typeof v = ''object''
      \<and> js_typeof (entry_prop v ''id'') \<noteq> ''undefined''
      \<and> js_typeof (entry_prop v ''type'') = ''string'')"

fun props_of :: "jsval \<Rightarrow> item" where
  "props_of (JObj ps) = ps"
| "props_of v = []"

definition safeJSONParse :: "builtins \<Rightarrow> string \<Rightarrow> item list \<Rightarrow> item list" where
  "safeJSONParse js data fallback =
     (case JSON_parse js data of
        None \<Rightarrow> fallback
      | Some parsed \<Rightarrow>
          (case parsed of
             JArr entries \<Rightarrow> map props_of (filter entry_ok entries)
           | _ \<Rightarrow> fallback))"

section \<open>The application component (\<open>App\<close>)\<close>

text \<open>
  The state of one unlocked session: the React state that the handlers read and set, the
  ref \<open>initialLoadDone\<close>, whether the timer that sets it is running (\<open>loadTimer\<close>),
  the local store, the legacy key \<open>myImportantItems\<close> of \<open>localStorage\<close> and the
  cloud. A handler reads \<open>items\<close> and \<open>cloudEnabled\<close> as they were when it started.
  \<open>trace\<close> records, in the order they happen, the calls a handler makes to the
  presentation layer and to the two stores. The storage estimate, which only feeds a
  usage display, is left out.

  A handler that awaits a promise that never settles stops there: its result is the
  state at that point, and nothing it has after the \<open>await\<close> happens.
\<close>

datatype event =
    Notify string string
  | SetItems "item list"
  | CloudSave item
  | CloudDelete item
  | LocalSave "item list" bool
  | LegacyRemove

datatype sync_status = Checking | Synced | Syncing | Offline

record world =
  items :: "item list"
  noteText :: string
  cloudEnabled :: bool
  syncStatus :: sync_status
  isSaving :: bool
  initialLoadDone :: bool
  loadTimer :: bool
  idb :: "item list"
  legacy :: "string option"
  firebase :: cloud
  trace :: "event list"

text \<open>What a browser \<open>File\<close> offers, with the result of reading it as a data URL.\<close>

record js_file =
  file_name :: string
  file_size :: int
  file_type :: string
  readAsDataURL :: "string option"

text \<open>What \<open>generateId()\<close> and \<open>new Date().toISOString()\<close> give for a new item.\<close>

record fresh =
  new_id :: string
  new_time :: string

definition showNotification :: "string \<Rightarrow> string \<Rightarrow> world \<Rightarrow> world" where
  "showNotification message ty w = w\<lparr>trace := trace w @ [Notify message ty]\<rparr>"

definition setItems :: "item list \<Rightarrow> world \<Rightarrow> world" where
  "setItems xs w = w\<lparr>items := xs, trace := trace w @ [SetItems xs]\<rparr>"

definition call_saveItemsToDB :: "env \<Rightarrow> item list \<Rightarrow> bool \<Rightarrow> world \<Rightarrow> save_outcome \<times> world" where
  "call_saveItemsToDB e xs forceEmpty w =
     (let (r, db) = saveItemsToDB e xs forceEmpty (idb w)
      in (r, w\<lparr>idb := db, trace := trace w @ [LocalSave xs forceEmpty]\<rparr>))"

definition call_saveItemToCloud :: "env \<Rightarrow> item \<Rightarrow> world \<Rightarrow> (error + item option) \<times> world" where
  "call_saveItemToCloud e item w =
     (let (r, c) = saveItemToCloud e item (firebase w)
      in (r, w\<lparr>firebase := c, trace := trace w @ [CloudSave item]\<rparr>))"

definition call_deleteItemFromCloud :: "env \<Rightarrow> item \<Rightarrow> world \<Rightarrow> (error + unit) \<times> world" where
  "call_deleteItemFromCloud e item w =
     (let (r, c) = deleteItemFromCloud e item (firebase w)
      in (r, w\<lparr>firebase := c, trace := trace w @ [CloudDelete item]\<rparr>))"

subsection \<open>Startup: \<open>loadItems\<close>\<close>

text \<open>How a block with awaits ends: it returns, it throws, or it waits for ever.\<close>

datatype completion = Returned | Threw | Hung

text \<open>
  \<open>for (const item of dbItems) await saveItemToCloud(item)\<close>: the value each call
  returns is dropped; the first call that throws ends the loop.
\<close>

fun upload_all :: "env \<Rightarrow> item list \<Rightarrow> world \<Rightarrow> error option \<times> world" where
  "upload_all e [] w = (None, w)"
| "upload_all e (item # rest) w =
     (case call_saveItemToCloud e item w of
        (Inl err, w1) \<Rightarrow> (Some err, w1)
      | (Inr r, w1) \<Rightarrow> upload_all e rest w1)"

text \<open>The migration from \<open>localStorage\<close>, the innermost branch of \<open>loadItems\<close>.\<close>

definition import_legacy :: "builtins \<Rightarrow> env \<Rightarrow> world \<Rightarrow> completion \<times> world" where
  "import_legacy js e w =
     (case legacy w of
        None \<Rightarrow> (Returned, w)
      | Some savedItems \<Rightarrow>
          if savedItems = [] then (Returned, w)
          else
            let parsed = safeJSONParse js savedItems [];
                w1 = setItems parsed w
            in if length parsed > 0 then
                 (case call_saveItemsToDB e parsed False w1 of
                    (SaveFailed, w2) \<Rightarrow> (Threw, w2)
                  | (NeverSettles, w2) \<Rightarrow> (Hung, w2)
                  | (r, w2) \<Rightarrow>
                      (Returned,
                       showNotification ''Data migrated to new storage!'' ''success''
                         (w2\<lparr>legacy := None, trace := trace w2 @ [LegacyRemove]\<rparr>)))
               else (Returned, w1))"

text \<open>The \<open>try\<close> block of \<open>loadItems\<close>.\<close>

definition loadItems_try :: "builtins \<Rightarrow> env \<Rightarrow> world \<Rightarrow> completion \<times> world" where
  "loadItems_try js e w =
     (let firebaseConfigured = checkFirebaseConfig (firebase w);
          w1 = w\<lparr>cloudEnabled := firebaseConfigured\<rparr>
      in
      if firebaseConfigured then
        (let w2 = w1\<lparr>syncStatus := Syncing\<rparr> in
         case loadItemsFromCloud js e (firebase w2) of
           Inl err \<Rightarrow> (Threw, w2)
         | Inr cloudItems \<Rightarrow>
             if length cloudItems > 0 then
               (case call_saveItemsToDB e cloudItems False (setItems cloudItems w2) of
                  (SaveFailed, w3) \<Rightarrow> (Threw, w3)
                | (NeverSettles, w3) \<Rightarrow> (Hung, w3)
                | (r, w3) \<Rightarrow>
                    (Returned,
                     showNotification ''Synced from cloud!'' ''success'' (w3\<lparr>syncStatus := Synced\<rparr>)))
             else
               (case loadItemsFromDB js e (idb w2) of
                  Inl err \<Rightarrow> (Threw, w2)
                | Inr dbItems \<Rightarrow>
                    if length dbItems > 0 then
                      (case upload_all e dbItems (setItems dbItems w2) of
                         (Some err, w3) \<Rightarrow> (Threw, w3)
                       | (None, w3) \<Rightarrow>
                           (Returned,
                            showNotification ''Local data uploaded to cloud!'' ''success''
                              (w3\<lparr>syncStatus := Synced\<rparr>)))
                    else (Returned, w2)))
      else
        (let w2 = w1\<lparr>syncStatus := Offline\<rparr> in
         case loadItemsFromDB js e (idb w2) of
           Inl err \<Rightarrow> (Threw, w2)
         | Inr dbItems \<Rightarrow>
             if length dbItems > 0 then (Returned, setItems dbItems w2)
             else import_legacy js e w2))"

text \<open>The \<open>catch\<close> of \<open>loadItems\<close>.\<close>

definition load_failed :: "world \<Rightarrow> world" where
  "load_failed w = showNotification ''Error loading items'' ''error'' (w\<lparr>syncStatus := Offline\<rparr>)"

text \<open>
  \<open>loadItems\<close>: the \<open>try\<close> block, the \<open>catch\<close> when it throws, and the \<open>finally\<close>,
  which starts the timer; none of the two when the block waits for ever.
\<close>

definition loadItems :: "builtins \<Rightarrow> env \<Rightarrow> world \<Rightarrow> world" where
  "loadItems js e w =
     (case loadItems_try js e w of
        (Returned, w1) \<Rightarrow> w1\<lparr>loadTimer := True\<rparr>
      | (Threw, w1) \<Rightarrow> (load_failed w1)\<lparr>loadTimer := True\<rparr>
      | (Hung, w1) \<Rightarrow> w1)"

text \<open>The timer that \<open>loadItems\<close> starts in its \<open>finally\<close>, when it fires.\<close>

definition initialLoadTimer :: "world \<Rightarrow> world" where
  "initialLoadTimer w = (if loadTimer w then w\<lparr>initialLoadDone := True\<rparr> else w)"

subsection \<open>Real-time updates\<close>

text \<open>The callback that the component passes to \<open>subscribeToItems\<close>.\<close>

definition onCloudItems :: "item list \<Rightarrow> world \<Rightarrow> world" where
  "onCloudItems cloudItems w =
     (if initialLoadDone w then (setItems cloudItems w)\<lparr>syncStatus := Synced\<rparr> else w)"

subsection \<open>Mutations\<close>

text \<open>
  \<open>saveItems(newItems)\<close>: whether its promise settles (it never rejects), and the
  state.
\<close>

definition saveItems :: "env \<Rightarrow> item list \<Rightarrow> world \<Rightarrow> bool \<times> world" where
  "saveItems e newItems w =
     (case call_saveItemsToDB e newItems False (w\<lparr>isSaving := True, syncStatus := Syncing\<rparr>) of
        (NeverSettles, w1) \<Rightarrow> (False, w1)
      | (SaveFailed, w1) \<Rightarrow>
          (True,
           (showNotification ''Error saving items. Please try again.'' ''error''
              (w1\<lparr>syncStatus := Offline\<rparr>))\<lparr>isSaving := False\<rparr>)
      | (r, w1) \<Rightarrow>
          (True,
           w1\<lparr>syncStatus := (if cloudEnabled w then Synced else Offline), isSaving := False\<rparr>))"

definition validateFile :: "js_file \<Rightarrow> world \<Rightarrow> bool \<times> world" where
  "validateFile f w =
     (if file_size f > MAX_FILE_SIZE then
        (False,
         showNotification
           (''File '' @ [CHR 0x22] @ file_name f @ [CHR 0x22] @ '' is too large. Max size is 10MB.'')
           ''error'' w)
      else if file_type f \<noteq> [] \<and> file_type f \<notin> set ALLOWED_FILE_TYPES then
        (False,
         showNotification
           (''File type '' @ [CHR 0x22] @ file_type f @ [CHR 0x22] @ '' is not allowed.'')
           ''error'' w)
      else if length (items w) \<ge> MAX_ITEMS then
        (False,
         showNotification
           (''Maximum '' @ digits MAX_ITEMS @ '' items allowed. Please delete some items.'')
           ''error'' w)
      else (True, w))"

definition new_file_item :: "js_file \<Rightarrow> fresh \<Rightarrow> string \<Rightarrow> item" where
  "new_file_item f fr dat =
     [(''id'', JStr (new_id fr)),
      (''type'', JStr ''file''),
      (''name'', JStr (sanitizeText (file_name f))),
      (''size'', JNum (file_size f)),
      (''fileType'', JStr (if file_type f \<noteq> [] then file_type f else ''application/octet-stream'')),
      (''data'', JStr dat),
      (''important'', JBool False),
      (''createdAt'', JStr (new_time fr))]"

text \<open>
  The loop of \<open>handleFileUpload\<close> over the chosen files, with \<open>currentItems\<close> as
  accumulator. \<open>validateFile\<close> reads the state \<open>items\<close>, which the loop does not set.
\<close>

fun upload_loop :: "env \<Rightarrow> (js_file \<times> fresh) list \<Rightarrow> item list \<Rightarrow> world \<Rightarrow> item list \<times> world" where
  "upload_loop e [] currentItems w = (currentItems, w)"
| "upload_loop e ((f, fr) # rest) currentItems w =
     (case validateFile f w of
        (False, w1) \<Rightarrow> upload_loop e rest currentItems w1
      | (True, w1) \<Rightarrow>
          (case readAsDataURL f of
             None \<Rightarrow>
               upload_loop e rest currentItems
                 (showNotification
                    (''Error uploading '' @ [CHR 0x22] @ file_name f @ [CHR 0x22]) ''error'' w1)
           | Some dat \<Rightarrow>
               let newItem = new_file_item f fr dat in
               if cloudEnabled w1 then
                 (case call_saveItemToCloud e newItem w1 of
                    (Inr (Some cloudItem), w2) \<Rightarrow> upload_loop e rest (cloudItem # currentItems) w2
                  | (Inr None, w2) \<Rightarrow> upload_loop e rest (newItem # currentItems) w2
                  | (Inl cloudError, w2) \<Rightarrow> upload_loop e rest (newItem # currentItems) w2)
               else upload_loop e rest (newItem # currentItems) w1))"

definition handleFileUpload :: "env \<Rightarrow> (js_file \<times> fresh) list \<Rightarrow> world \<Rightarrow> world" where
  "handleFileUpload e files w =
     (if length files = 0 then w
      else
        let (currentItems, w1) = upload_loop e files (items w) (w\<lparr>isSaving := True, syncStatus := Syncing\<rparr>)
        in case saveItems e currentItems (setItems currentItems w1) of
             (False, w2) \<Rightarrow> w2
           | (True, w2) \<Rightarrow>
               (showNotification (digits (length files) @ '' file(s) uploaded!'') ''success'' w2)
                 \<lparr>isSaving := False, syncStatus := (if cloudEnabled w then Synced else Offline)\<rparr>)"

definition new_note_item :: "fresh \<Rightarrow> string \<Rightarrow> item" where
  "new_note_item fr trimmedNote =
     [(''id'', JStr (new_id fr)),
      (''type'', JStr ''note''),
      (''content'', JStr trimmedNote),
      (''important'', JBool False),
      (''createdAt'', JStr (new_time fr))]"

definition handleAddNote :: "env \<Rightarrow> fresh \<Rightarrow> world \<Rightarrow> world" where
  "handleAddNote e fr w =
     (let trimmedNote = js_trim (noteText w) in
      if trimmedNote = [] then showNotification ''Please enter a note'' ''error'' w
      else if length trimmedNote > MAX_NOTE_LENGTH then
        showNotification (''Note is too long. Max '' @ digits MAX_NOTE_LENGTH @ '' characters.'') ''error'' w
      else if length (items w) \<ge> MAX_ITEMS then
        showNotification
          (''Maximum '' @ digits MAX_ITEMS @ '' items allowed. Please delete some items.'') ''error'' w
      else
        let newItem = new_note_item fr trimmedNote;
            w1 = (if cloudEnabled w then snd (call_saveItemToCloud e newItem w) else w);
            newItems = newItem # items w
        in case saveItems e newItems (setItems newItems w1) of
             (False, w2) \<Rightarrow> w2
           | (True, w2) \<Rightarrow>
               showNotification ''Note added successfully!'' ''success'' (w2\<lparr>noteText := []\<rparr>))"

definition toggled :: "jsval \<Rightarrow> item list \<Rightarrow> item list" where
  "toggled i xs =
     map (\<lambda>item. if get_prop item ''id'' = i
                 then set_prop item ''important'' (JBool (\<not> truthy (get_prop item ''important'')))
                 else item) xs"

definition toggleImportant :: "env \<Rightarrow> jsval \<Rightarrow> world \<Rightarrow> world" where
  "toggleImportant e i w =
     (let newItems = toggled i (items w);
          w1 = (if cloudEnabled w then
                  (case find (\<lambda>item. get_prop item ''id'' = i) newItems of
                     Some updatedItem \<Rightarrow> snd (call_saveItemToCloud e updatedItem w)
                   | None \<Rightarrow> w)
                else w)
      in snd (saveItems e newItems (setItems newItems w1)))"

text \<open>
  \<open>deleteItem(id)\<close>: the local save is forced; when it rejects or never settles, the
  handler ends there and the notification is not shown.
\<close>

definition deleteItem :: "env \<Rightarrow> jsval \<Rightarrow> world \<Rightarrow> world" where
  "deleteItem e i w =
     (if confirm e then
        let itemToDelete = find (\<lambda>item. get_prop item ''id'' = i) (items w);
            w1 = (case itemToDelete of
                    Some it \<Rightarrow> if cloudEnabled w then snd (call_deleteItemFromCloud e it w) else w
                  | None \<Rightarrow> w);
            newItems = filter (\<lambda>item. get_prop item ''id'' \<noteq> i) (items w)
        in (case call_saveItemsToDB e newItems True (setItems newItems w1) of
              (SaveFailed, w2) \<Rightarrow> w2
            | (NeverSettles, w2) \<Rightarrow> w2
            | (r, w2) \<Rightarrow> showNotification ''Item deleted'' ''success'' w2)
      else w)"

section \<open>Observing a run\<close>

text \<open>
  What a run of \<open>handleFileUpload\<close> is compared with. The files that pass
  \<open>validateFile\<close> and are read are the ones for which an item is made. \<open>rejection\<close>
  is the message that \<open>validateFile\<close> shows for a file it rejects.
\<close>

definition admitted :: "world \<Rightarrow> (js_file \<times> fresh) list \<Rightarrow> (js_file \<times> fresh) list" where
  "admitted w files =
     filter (\<lambda>(f, fr). fst (validateFile f w) \<and> readAsDataURL f \<noteq> None) files"

definition rejection :: "js_file \<Rightarrow> string" where
  "rejection f =
     (if file_size f > MAX_FILE_SIZE then
        ''File '' @ [CHR 0x22] @ file_name f @ [CHR 0x22] @ '' is too large. Max size is 10MB.''
      else if file_type f \<noteq> [] \<and> file_type f \<notin> set ALLOWED_FILE_TYPES then
        ''File type '' @ [CHR 0x22] @ file_type f @ [CHR 0x22] @ '' is not allowed.''
      else ''Maximum '' @ digits MAX_ITEMS @ '' items allowed. Please delete some items.'')"

text \<open>The item made from a file, and the one that the loop puts into \<open>currentItems\<close>.\<close>

definition new_item_of :: "js_file \<times> fresh \<Rightarrow> item" where
  "new_item_of p =
     (case readAsDataURL (fst p) of
        None \<Rightarrow> []
      | Some dat \<Rightarrow> new_file_item (fst p) (snd p) dat)"

definition uploaded_item :: "env \<Rightarrow> world \<Rightarrow> js_file \<times> fresh \<Rightarrow> item" where
  "uploaded_item e w p =
     (if cloudEnabled w then
        (case fst (saveItemToCloud e (new_item_of p) (firebase w)) of
           Inr (Some cloudItem) \<Rightarrow> cloudItem
         | _ \<Rightarrow> new_item_of p)
      else new_item_of p)"

text \<open>
  What one file of the selection adds to the trace: the error for a rejected file, the
  error for a file that cannot be read, and otherwise the cloud write of its item when
  the cloud is enabled.
\<close>

definition file_events :: "world \<Rightarrow> js_file \<times> fresh \<Rightarrow> event list" where
  "file_events w p =
     (if fst (validateFile (fst p) w) then
        (case readAsDataURL (fst p) of
           None \<Rightarrow>
             [Notify (''Error uploading '' @ [CHR 0x22] @ file_name (fst p) @ [CHR 0x22]) ''error'']
         | Some dat \<Rightarrow> if cloudEnabled w then [CloudSave (new_item_of p)] else [])
      else [Notify (rejection (fst p)) ''error''])"

text \<open>Which events are notifications, and which are writes to the cloud.\<close>

fun is_notification :: "event \<Rightarrow> bool" where
  "is_notification (Notify m t) = True"
| "is_notification ev = False"

fun is_cloud_save :: "event \<Rightarrow> bool" where
  "is_cloud_save (CloudSave item) = True"
| "is_cloud_save ev = False"

text \<open>The number that a numeric id stands for.\<close>

definition num_id :: "item \<Rightarrow> int" where
  "num_id x = (case get_prop x ''id'' of JNum n \<Rightarrow> n | _ \<Rightarrow> 0)"

section \<open>Concrete inputs\<close>

text \<open>
  An environment in which nothing faults and the user confirms, an instance of the
  builtins for the concrete runs below (no string of those runs is a numeric literal, a
  date or, unless the instance lists it, a JSON text), and a few items.
\<close>

definition no_faults :: env where
  "no_faults =
     \<lparr>open_fails = False, count_fails = False, write_fails = False, read_fails = False,
      getDocs_fails = False, upload_fails = (\<lambda>item. False), setDoc_fails = (\<lambda>item. False),
      deleteDoc_fails = (\<lambda>item. False), deleteObject_fails = (\<lambda>item. False),
      getDownloadURL = (\<lambda>path. Some (''https://storage.example/'' @ path)),
      Date_now = 1700000000000, confirm = True\<rparr>"

definition fresh_a :: fresh where
  "fresh_a = \<lparr>new_id = ''a-1'', new_time = ''2024-01-01T00:00:00.000Z''\<rparr>"

definition fresh_b :: fresh where
  "fresh_b = \<lparr>new_id = ''b-2'', new_time = ''2024-01-02T00:00:00.000Z''\<rparr>"

definition note_a :: item where
  "note_a = new_note_item fresh_a ''x''"

definition note_b :: item where
  "note_b = new_note_item fresh_b ''y''"

definition sample_js :: builtins where
  "sample_js =
     \<lparr>JSON_parse = (\<lambda>s. None), StringToNumber = (\<lambda>s. None), DateValue = (\<lambda>v. None)\<rparr>"

definition cloud_off :: cloud where
  "cloud_off =
     \<lparr>apiKey = ''YOUR_API_KEY'', projectId = ''YOUR_PROJECT_ID'', init_ok = False,
      docs = [], blobs = []\<rparr>"

definition cloud_on :: cloud where
  "cloud_on = \<lparr>apiKey = ''key'', projectId = ''vault'', init_ok = True, docs = [], blobs = []\<rparr>"

definition world0 :: world where
  "world0 =
     \<lparr>items = [], noteText = [], cloudEnabled = False, syncStatus = Checking,
      isSaving = False, initialLoadDone = False, loadTimer = False, idb = [], legacy = None,
      firebase = cloud_off, trace = []\<rparr>"

definition many_notes :: "nat \<Rightarrow> item list" where
  "many_notes n =
     map (\<lambda>k. new_note_item \<lparr>new_id = ''n-'' @ digits k, new_time = ''2023-12-31T00:00:00.000Z''\<rparr> ''x'')
       [0..<n]"

definition text_file :: "string \<Rightarrow> js_file" where
  "text_file nm =
     \<lparr>file_name = nm, file_size = 3, file_type = ''text/plain'',
      readAsDataURL = Some ''data:text/plain;base64,YWJj''\<rparr>"

definition untyped_file :: js_file where
  "untyped_file =
     \<lparr>file_name = ''blob'', file_size = 3, file_type = [],
      readAsDataURL = Some ''data:application/octet-stream;base64,YWJj''\<rparr>"

definition big_file :: js_file where
  "big_file =
     \<lparr>file_name = ''big.txt'', file_size = 10485761, file_type = ''text/plain'',
      readAsDataURL = Some ''data:text/plain;base64,YWJj''\<rparr>"







text \<open>A file item whose payload is inline, and the record the cloud adapter makes of it.\<close>

definition inline_file :: item where
  "inline_file = new_file_item (text_file ''a.txt'') fresh_a ''data:text/plain;base64,YWJj''"

definition promoted_file :: item where
  "promoted_file =
     set_prop
       (set_prop (set_prop inline_file ''data'' (JStr ''https://storage.example/files/a-1_a.txt''))
          ''isCloudStored'' (JBool True))
       ''updatedAt'' (JNum 1700000000000)"

section \<open>Properties\<close>

subsection \<open>Objects\<close>

lemma get_set_prop: "get_prop (set_prop item k v) k' = (if k' = k then v else get_prop item k')"
  by (simp add: get_prop_def set_prop_def update_conv')

subsection \<open>Fields of the state through the helpers\<close>

lemma showNotification_fields [simp]:
  "items (showNotification m t w) = items w"
  "idb (showNotification m t w) = idb w"
  "legacy (showNotification m t w) = legacy w"
  "firebase (showNotification m t w) = firebase w"
  "cloudEnabled (showNotification m t w) = cloudEnabled w"
  "initialLoadDone (showNotification m t w) = initialLoadDone w"
  "noteText (showNotification m t w) = noteText w"
  "trace (showNotification m t w) = trace w @ [Notify m t]"
  by (simp_all add: showNotification_def)

lemma setItems_fields [simp]:
  "items (setItems xs w) = xs"
  "idb (setItems xs w) = idb w"
  "legacy (setItems xs w) = legacy w"
  "firebase (setItems xs w) = firebase w"
  "cloudEnabled (setItems xs w) = cloudEnabled w"
  "initialLoadDone (setItems xs w) = initialLoadDone w"
  "noteText (setItems xs w) = noteText w"
  "trace (setItems xs w) = trace w @ [SetItems xs]"
  by (simp_all add: setItems_def)

lemma call_saveItemsToDB_fields [simp]:
  "fst (call_saveItemsToDB e xs b w) = fst (saveItemsToDB e xs b (idb w))"
  "items (snd (call_saveItemsToDB e xs b w)) = items w"
  "idb (snd (call_saveItemsToDB e xs b w)) = snd (saveItemsToDB e xs b (idb w))"
  "legacy (snd (call_saveItemsToDB e xs b w)) = legacy w"
  "firebase (snd (call_saveItemsToDB e xs b w)) = firebase w"
  "cloudEnabled (snd (call_saveItemsToDB e xs b w)) = cloudEnabled w"
  "initialLoadDone (snd (call_saveItemsToDB e xs b w)) = initialLoadDone w"
  "noteText (snd (call_saveItemsToDB e xs b w)) = noteText w"
  "trace (snd (call_saveItemsToDB e xs b w)) = trace w @ [LocalSave xs b]"
  by (simp_all add: call_saveItemsToDB_def split: prod.splits)

lemma call_saveItemToCloud_fields [simp]:
  "fst (call_saveItemToCloud e x w) = fst (saveItemToCloud e x (firebase w))"
  "items (snd (call_saveItemToCloud e x w)) = items w"
  "idb (snd (call_saveItemToCloud e x w)) = idb w"
  "legacy (snd (call_saveItemToCloud e x w)) = legacy w"
  "firebase (snd (call_saveItemToCloud e x w)) = snd (saveItemToCloud e x (firebase w))"
  "cloudEnabled (snd (call_saveItemToCloud e x w)) = cloudEnabled w"
  "initialLoadDone (snd (call_saveItemToCloud e x w)) = initialLoadDone w"
  "noteText (snd (call_saveItemToCloud e x w)) = noteText w"
  "trace (snd (call_saveItemToCloud e x w)) = trace w @ [CloudSave x]"
  by (simp_all add: call_saveItemToCloud_def split: prod.splits)

lemma call_deleteItemFromCloud_fields [simp]:
  "items (snd (call_deleteItemFromCloud e x w)) = items w"
  "idb (snd (call_deleteItemFromCloud e x w)) = idb w"
  "legacy (snd (call_deleteItemFromCloud e x w)) = legacy w"
  "firebase (snd (call_deleteItemFromCloud e x w)) = snd (deleteItemFromCloud e x (firebase w))"
  "cloudEnabled (snd (call_deleteItemFromCloud e x w)) = cloudEnabled w"
  "trace (snd (call_deleteItemFromCloud e x w)) = trace w @ [CloudDelete x]"
  by (simp_all add: call_deleteItemFromCloud_def split: prod.splits)

lemma saveItems_settles:
  "fst (saveItems e xs w) = (fst (saveItemsToDB e xs False (idb w)) \<noteq> NeverSettles)"
  by (simp add: saveItems_def call_saveItemsToDB_def split: prod.splits save_outcome.splits)

lemma saveItems_fields [simp]:
  "items (snd (saveItems e xs w)) = items w"
  "idb (snd (saveItems e xs w)) = snd (saveItemsToDB e xs False (idb w))"
  "legacy (snd (saveItems e xs w)) = legacy w"
  "firebase (snd (saveItems e xs w)) = firebase w"
  "cloudEnabled (snd (saveItems e xs w)) = cloudEnabled w"
  "initialLoadDone (snd (saveItems e xs w)) = initialLoadDone w"
  by (simp_all add: saveItems_def call_saveItemsToDB_def split: prod.splits save_outcome.splits)

lemma saveItems_trace:
  "trace (snd (saveItems e xs w)) =
     trace w @ [LocalSave xs False]
     @ (if fst (saveItemsToDB e xs False (idb w)) = SaveFailed
        then [Notify ''Error saving items. Please try again.'' ''error''] else [])"
  by (simp add: saveItems_def call_saveItemsToDB_def split: prod.splits save_outcome.splits)

lemma loadItems_fields:
  "items (loadItems js e w) = items (snd (loadItems_try js e w))"
  "idb (loadItems js e w) = idb (snd (loadItems_try js e w))"
  "legacy (loadItems js e w) = legacy (snd (loadItems_try js e w))"
  "firebase (loadItems js e w) = firebase (snd (loadItems_try js e w))"
  "trace (loadItems js e w) =
     trace (snd (loadItems_try js e w))
     @ (if fst (loadItems_try js e w) = Threw then [Notify ''Error loading items'' ''error''] else [])"
  "loadTimer (loadItems js e w) =
     (if fst (loadItems_try js e w) = Hung then loadTimer (snd (loadItems_try js e w)) else True)"
  by (simp_all add: loadItems_def load_failed_def split: prod.splits completion.splits)

text \<open>The outcomes of a save that is not stopped by the guard.\<close>

lemma addable_first: "addable xs \<Longrightarrow> \<not> first_add_throws xs"
  by (cases xs) (simp_all add: addable_def)

lemma saveItemsToDB_outcome:
  assumes "\<not> open_fails e" and "xs \<noteq> [] \<or> forceEmpty \<or> db = []"
  shows "saveItemsToDB e xs forceEmpty db =
     (if write_fails e then (SaveFailed, db)
      else if first_add_throws xs then (NeverSettles, db)
      else if addable xs then (Saved, xs)
      else (SaveFailed, db))"
  using assms by (auto simp add: saveItemsToDB_def Let_def)

subsection \<open>The local store\<close>

text \<open>
  C2, as the code has it. When \<open>saveItemsToDB\<close> is called with an empty array and
  without \<open>forceEmpty\<close>, the store holds at least one record and the count request
  succeeds, the store is left as it is: the call returns before the write transaction
  (or rejects, when the database cannot be opened).
\<close>

theorem saveItemsToDB_empty_guard:
  assumes "db \<noteq> []" and "\<not> count_fails e"
  shows "snd (saveItemsToDB e [] False db) = db
         \<and> fst (saveItemsToDB e [] False db) = (if open_fails e then SaveFailed else Prevented)"
  using assms by (simp add: saveItemsToDB_def)

theorem saveItemsToDB_empty_guard_witness:
  "[note_a] \<noteq> [] \<and> \<not> count_fails no_faults
   \<and> saveItemsToDB no_faults [] False [note_a] = (Prevented, [note_a])"
  using saveItemsToDB_empty_guard [of "[note_a]" no_faults]
  by (simp add: no_faults_def prod_eq_iff)

text \<open>
  C2 as stated fails when the count request faults: \<open>countRequest.onerror\<close> resolves
  \<open>0\<close>, the guard sees an empty store and the write transaction clears the one record.
\<close>

theorem saveItemsToDB_count_fault_counterexample:
  "length [note_a] > 0
   \<and> saveItemsToDB (no_faults\<lparr>count_fails := True\<rparr>) [] False [note_a] = (Saved, [])"
  by (simp add: saveItemsToDB_def no_faults_def addable_def)

subsection \<open>Startup\<close>

text \<open>
  C1. When the cloud is configured and \<open>loadItemsFromCloud\<close> returns a non-empty
  array, \<open>loadItems\<close> makes that array the collection, whatever the local store holds,
  and the first two things it does are \<open>setItems(cloudItems)\<close> and
  \<open>saveItemsToDB(cloudItems)\<close>; unless the local transaction fails, the local store
  then holds exactly the cloud's records.
\<close>

theorem loadItems_remote_precedence:
  assumes conf: "checkFirebaseConfig (firebase w)"
    and fetch: "loadItemsFromCloud js e (firebase w) = Inr cloudItems"
    and nonempty: "cloudItems \<noteq> []"
  shows "items (loadItems js e w) = cloudItems
         \<and> take 2 (drop (length (trace w)) (trace (loadItems js e w)))
             = [SetItems cloudItems, LocalSave cloudItems False]
         \<and> (\<not> open_fails e \<and> \<not> write_fails e \<and> addable cloudItems \<longrightarrow>
               idb (loadItems js e w) = cloudItems)"
proof -
  let ?w2 = "setItems cloudItems (w\<lparr>cloudEnabled := True, syncStatus := Syncing\<rparr>)"
  obtain r w3 where r: "call_saveItemsToDB e cloudItems False ?w2 = (r, w3)"
    by (cases "call_saveItemsToDB e cloudItems False ?w2")
  have w3_items: "items w3 = cloudItems"
    using arg_cong [OF r, of "\<lambda>p. items (snd p)"] by simp
  have w3_idb: "idb w3 = snd (saveItemsToDB e cloudItems False (idb w))"
    using arg_cong [OF r, of "\<lambda>p. idb (snd p)"] by simp
  have w3_trace: "trace w3 = trace w @ [SetItems cloudItems, LocalSave cloudItems False]"
    using arg_cong [OF r, of "\<lambda>p. trace (snd p)"] by simp
  have run: "snd (loadItems_try js e w) =
      (if r = SaveFailed \<or> r = NeverSettles then w3
       else showNotification ''Synced from cloud!'' ''success'' (w3\<lparr>syncStatus := Synced\<rparr>))"
    using conf fetch nonempty r
    by (cases r) (simp_all add: loadItems_try_def Let_def)
  have store: "\<not> open_fails e \<and> \<not> write_fails e \<and> addable cloudItems \<longrightarrow>
      saveItemsToDB e cloudItems False (idb w) = (Saved, cloudItems)"
    using nonempty by (simp add: saveItemsToDB_outcome addable_first)
  have "items (loadItems js e w) = cloudItems"
    by (simp add: loadItems_fields run w3_items)
  moreover have "take 2 (drop (length (trace w)) (trace (loadItems js e w)))
             = [SetItems cloudItems, LocalSave cloudItems False]"
    by (simp add: loadItems_fields run w3_trace)
  moreover have "\<not> open_fails e \<and> \<not> write_fails e \<and> addable cloudItems \<longrightarrow>
               idb (loadItems js e w) = cloudItems"
    using store by (simp add: loadItems_fields run w3_idb)
  ultimately show ?thesis by blast
qed

theorem loadItems_remote_precedence_witness:
  "checkFirebaseConfig (firebase (world0\<lparr>firebase := cloud_on\<lparr>docs := [(''a-1'', note_a)]\<rparr>, idb := [note_b]\<rparr>))
   \<and> idb (world0\<lparr>firebase := cloud_on\<lparr>docs := [(''a-1'', note_a)]\<rparr>, idb := [note_b]\<rparr>) = [note_b]
   \<and> items (loadItems sample_js no_faults
         (world0\<lparr>firebase := cloud_on\<lparr>docs := [(''a-1'', note_a)]\<rparr>, idb := [note_b]\<rparr>)) = [note_a]
   \<and> idb (loadItems sample_js no_faults
         (world0\<lparr>firebase := cloud_on\<lparr>docs := [(''a-1'', note_a)]\<rparr>, idb := [note_b]\<rparr>)) = [note_a]"
proof -
  let ?w = "world0\<lparr>firebase := cloud_on\<lparr>docs := [(''a-1'', note_a)]\<rparr>, idb := [note_b]\<rparr>"
  have conf: "checkFirebaseConfig (firebase ?w)"
    by (simp add: checkFirebaseConfig_def isFirebaseConfigured_def world0_def cloud_on_def)
  have fetch: "loadItemsFromCloud sample_js no_faults (firebase ?w) = Inr [note_a]"
    by (simp add: loadItemsFromCloud_def loadItemsFromCloud_try_def getDocs_def db_ready_def
        isFirebaseConfigured_def world0_def cloud_on_def no_faults_def js_sort_def)
  have ok: "\<not> open_fails no_faults \<and> \<not> write_fails no_faults \<and> addable [note_a]"
    by (simp add: no_faults_def addable_def note_a_def new_note_item_def get_prop_def)
  have local: "idb ?w = [note_b]"
    by (simp add: world0_def)
  from loadItems_remote_precedence [OF conf fetch] ok conf local show ?thesis
    by simp
qed

subsection \<open>Real-time updates\<close>

text \<open>
  C3. The callback given to \<open>subscribeToItems\<close> leaves the state as it is while
  \<open>initialLoadDone\<close> is not set; once it is set, the collection becomes exactly the
  array the callback was called with.
\<close>

theorem onCloudItems_guard:
  "(\<not> initialLoadDone w \<longrightarrow> onCloudItems cloudItems w = w)
   \<and> (initialLoadDone w \<longrightarrow> items (onCloudItems cloudItems w) = cloudItems)"
  by (simp add: onCloudItems_def)

theorem onCloudItems_guard_witness:
  "\<not> initialLoadDone (world0\<lparr>items := [note_b]\<rparr>)
   \<and> onCloudItems [note_a] (world0\<lparr>items := [note_b]\<rparr>) = world0\<lparr>items := [note_b]\<rparr>
   \<and> initialLoadDone (world0\<lparr>items := [note_b], initialLoadDone := True\<rparr>)
   \<and> items (onCloudItems [note_a] (world0\<lparr>items := [note_b], initialLoadDone := True\<rparr>)) = [note_a]"
  using onCloudItems_guard [of "world0\<lparr>items := [note_b]\<rparr>" "[note_a]"]
    onCloudItems_guard [of "world0\<lparr>items := [note_b], initialLoadDone := True\<rparr>" "[note_a]"]
  by (simp add: world0_def)

subsection \<open>The legacy import\<close>













subsection \<open>The upload loop\<close>

text \<open>
  \<open>validateFile\<close> decides on the file and on the number of items in the state, and
  changes nothing but the trace, to which it adds the error of a file it rejects.
\<close>

lemma validateFile_ok_iff:
  "fst (validateFile f w) \<longleftrightarrow>
     file_size f \<le> MAX_FILE_SIZE
     \<and> (file_type f = [] \<or> file_type f \<in> set ALLOWED_FILE_TYPES)
     \<and> length (items w) < MAX_ITEMS"
  unfolding validateFile_def by (simp add: not_less not_le)

lemma validateFile_snd:
  "snd (validateFile f w) =
     (if fst (validateFile f w) then w else showNotification (rejection f) ''error'' w)"
  unfolding validateFile_def rejection_def by simp

lemma validateFile_cong_items:
  "items w' = items w \<Longrightarrow> fst (validateFile f w') = fst (validateFile f w)"
  by (simp add: validateFile_ok_iff)

lemma admitted_cong_items: "items w' = items w \<Longrightarrow> admitted w' files = admitted w files"
  by (simp add: admitted_def validateFile_ok_iff)

lemma admitted_Cons:
  "admitted w ((f, fr) # files) =
     (if fst (validateFile f w) \<and> readAsDataURL f \<noteq> None then [(f, fr)] else [])
     @ admitted w files"
  by (simp add: admitted_def)

lemma file_events_cong:
  "items w' = items w \<Longrightarrow> cloudEnabled w' = cloudEnabled w \<Longrightarrow> file_events w' = file_events w"
  by (rule ext) (simp add: file_events_def validateFile_cong_items [of w' w])

text \<open>
  What \<open>saveItemToCloud\<close> returns depends on the cloud only through \<open>db\<close>, which no
  call changes.
\<close>

lemma save_directly_config:
  "apiKey (snd (save_directly e item c)) = apiKey c"
  "projectId (snd (save_directly e item c)) = projectId c"
  "init_ok (snd (save_directly e item c)) = init_ok c"
  by (simp_all add: save_directly_def Let_def)

lemma saveItemToCloud_config:
  "apiKey (snd (saveItemToCloud e item c)) = apiKey c"
  "projectId (snd (saveItemToCloud e item c)) = projectId c"
  "init_ok (snd (saveItemToCloud e item c)) = init_ok c"
  by (simp_all add: saveItemToCloud_def save_directly_config Let_def
      split: jsval.splits option.splits)

lemma saveItemToCloud_db_ready: "db_ready (snd (saveItemToCloud e item c)) = db_ready c"
  by (simp add: db_ready_def isFirebaseConfigured_def saveItemToCloud_config)

lemma saveItemToCloud_fst_cong:
  "db_ready c' = db_ready c \<Longrightarrow> fst (saveItemToCloud e item c') = fst (saveItemToCloud e item c)"
  by (simp add: saveItemToCloud_def save_directly_def Let_def split: jsval.splits option.splits)

lemma uploaded_item_cong:
  "cloudEnabled w' = cloudEnabled w \<Longrightarrow> db_ready (firebase w') = db_ready (firebase w) \<Longrightarrow>
     uploaded_item e w' = uploaded_item e w"
  by (rule ext) (simp add: uploaded_item_def saveItemToCloud_fst_cong [of "firebase w'" "firebase w"])

lemma call_saveItemToCloud_snd:
  "snd (call_saveItemToCloud e x w) =
     w\<lparr>firebase := snd (saveItemToCloud e x (firebase w)), trace := trace w @ [CloudSave x]\<rparr>"
  by (simp add: call_saveItemToCloud_def split: prod.splits)

text \<open>One round of the loop, with the item it puts in front of \<open>currentItems\<close>.\<close>

lemma upload_loop_step:
  "upload_loop e ((f, fr) # rest) cur w =
     (if \<not> fst (validateFile f w) then upload_loop e rest cur (snd (validateFile f w))
      else case readAsDataURL f of
        None \<Rightarrow>
          upload_loop e rest cur
            (showNotification (''Error uploading '' @ [CHR 0x22] @ file_name f @ [CHR 0x22])
               ''error'' w)
      | Some dat \<Rightarrow>
          if cloudEnabled w then
            upload_loop e rest
              ((case fst (saveItemToCloud e (new_file_item f fr dat) (firebase w)) of
                  Inr (Some cloudItem) \<Rightarrow> cloudItem
                | _ \<Rightarrow> new_file_item f fr dat) # cur)
              (snd (call_saveItemToCloud e (new_file_item f fr dat) w))
          else upload_loop e rest (new_file_item f fr dat # cur) w)"
proof (cases "fst (validateFile f w)")
  case False
  then show ?thesis
    by (cases "validateFile f w") simp
next
  case True
  then have v: "validateFile f w = (True, w)"
    using validateFile_snd [of f w] by (cases "validateFile f w") auto
  show ?thesis
  proof (cases "readAsDataURL f")
    case None
    then show ?thesis by (simp add: v)
  next
    case (Some dat)
    obtain r w2 where r: "call_saveItemToCloud e (new_file_item f fr dat) w = (r, w2)"
      by (cases "call_saveItemToCloud e (new_file_item f fr dat) w")
    have r_eq: "fst (saveItemToCloud e (new_file_item f fr dat) (firebase w)) = r"
      using arg_cong [OF r, of fst] by simp
    show ?thesis
      by (cases r) (simp_all add: v Some Let_def r r_eq split: option.splits)
  qed
qed

declare upload_loop.simps(2) [simp del]

text \<open>
  The whole loop: the items it puts in front of \<open>currentItems\<close>, the cloud after the
  writes of the admitted files, and what it adds to the trace, file by file.
\<close>

lemma upload_loop_run:
  "upload_loop e files cur w =
     (rev (map (uploaded_item e w) (admitted w files)) @ cur,
      w\<lparr>firebase :=
          foldl (\<lambda>c p. snd (saveItemToCloud e (new_item_of p) c)) (firebase w)
            (if cloudEnabled w then admitted w files else []),
        trace := trace w @ concat (map (file_events w) files)\<rparr>)"
proof (induction files arbitrary: cur w)
  case Nil
  show ?case by (simp add: admitted_def)
next
  case (Cons p files)
  obtain f fr where p: "p = (f, fr)" by (cases p)
  have rest: "upload_loop e files ys w' =
     (rev (map (uploaded_item e w) (admitted w files)) @ ys,
      w'\<lparr>firebase :=
          foldl (\<lambda>c p. snd (saveItemToCloud e (new_item_of p) c)) (firebase w')
            (if cloudEnabled w then admitted w files else []),
        trace := trace w' @ concat (map (file_events w) files)\<rparr>)"
    if "items w' = items w" and "cloudEnabled w' = cloudEnabled w"
      and "db_ready (firebase w') = db_ready (firebase w)" for ys w'
  proof -
    have same: "admitted w' files = admitted w files" "file_events w' = file_events w"
      "uploaded_item e w' = uploaded_item e w"
      by (rule admitted_cong_items file_events_cong uploaded_item_cong; simp add: that)+
    show ?thesis
      by (subst Cons.IH [where w = w' and cur = ys]) (simp add: same that)
  qed
  show ?case
  proof (cases "fst (validateFile f w)")
    case False
    let ?w1 = "showNotification (rejection f) ''error'' w"
    have "upload_loop e (p # files) cur w = upload_loop e files cur ?w1"
      using False by (simp add: p upload_loop_step validateFile_snd)
    also have "\<dots> =
       (rev (map (uploaded_item e w) (admitted w files)) @ cur,
        ?w1\<lparr>firebase :=
            foldl (\<lambda>c p. snd (saveItemToCloud e (new_item_of p) c)) (firebase ?w1)
              (if cloudEnabled w then admitted w files else []),
          trace := trace ?w1 @ concat (map (file_events w) files)\<rparr>)"
      by (rule rest) simp_all
    finally have run: "upload_loop e (p # files) cur w =
       (rev (map (uploaded_item e w) (admitted w files)) @ cur,
        ?w1\<lparr>firebase :=
            foldl (\<lambda>c p. snd (saveItemToCloud e (new_item_of p) c)) (firebase ?w1)
              (if cloudEnabled w then admitted w files else []),
          trace := trace ?w1 @ concat (map (file_events w) files)\<rparr>)" .
    have ev: "file_events w p = [Notify (rejection f) ''error'']"
      using False by (simp add: p file_events_def)
    have adm: "admitted w (p # files) = admitted w files"
      using False by (simp add: p admitted_Cons)
    show ?thesis
      by (simp add: run ev adm showNotification_def)
  next
    case True
    show ?thesis
    proof (cases "readAsDataURL f")
      case None
      let ?w1 = "showNotification (''Error uploading '' @ [CHR 0x22] @ file_name f @ [CHR 0x22])
                   ''error'' w"
      have "upload_loop e (p # files) cur w = upload_loop e files cur ?w1"
        using True None by (simp add: p upload_loop_step)
      also have "\<dots> =
         (rev (map (uploaded_item e w) (admitted w files)) @ cur,
          ?w1\<lparr>firebase :=
              foldl (\<lambda>c p. snd (saveItemToCloud e (new_item_of p) c)) (firebase ?w1)
                (if cloudEnabled w then admitted w files else []),
            trace := trace ?w1 @ concat (map (file_events w) files)\<rparr>)"
        by (rule rest) simp_all
      finally have run: "upload_loop e (p # files) cur w =
         (rev (map (uploaded_item e w) (admitted w files)) @ cur,
          ?w1\<lparr>firebase :=
              foldl (\<lambda>c p. snd (saveItemToCloud e (new_item_of p) c)) (firebase ?w1)
                (if cloudEnabled w then admitted w files else []),
            trace := trace ?w1 @ concat (map (file_events w) files)\<rparr>)" .
      have ev: "file_events w p =
          [Notify (''Error uploading '' @ [CHR 0x22] @ file_name f @ [CHR 0x22]) ''error'']"
        using True None by (simp add: p file_events_def)
      have adm: "admitted w (p # files) = admitted w files"
        using None by (simp add: p admitted_Cons)
      show ?thesis
        by (simp add: run ev adm showNotification_def)
    next
      case (Some dat)
      have item: "new_item_of (f, fr) = new_file_item f fr dat"
        by (simp add: new_item_of_def Some)
      show ?thesis
      proof (cases "cloudEnabled w")
        case False
        have "upload_loop e (p # files) cur w = upload_loop e files (new_file_item f fr dat # cur) w"
          using True Some False by (simp add: p upload_loop_step)
        also have "\<dots> =
           (rev (map (uploaded_item e w) (admitted w files)) @ new_file_item f fr dat # cur,
            w\<lparr>firebase :=
                foldl (\<lambda>c p. snd (saveItemToCloud e (new_item_of p) c)) (firebase w)
                  (if cloudEnabled w then admitted w files else []),
              trace := trace w @ concat (map (file_events w) files)\<rparr>)"
          by (rule rest) simp_all
        finally have run: "upload_loop e (p # files) cur w =
           (rev (map (uploaded_item e w) (admitted w files)) @ new_file_item f fr dat # cur,
            w\<lparr>firebase :=
                foldl (\<lambda>c p. snd (saveItemToCloud e (new_item_of p) c)) (firebase w)
                  (if cloudEnabled w then admitted w files else []),
              trace := trace w @ concat (map (file_events w) files)\<rparr>)" .
        have ev: "file_events w p = []"
          using True Some False by (simp add: p file_events_def)
        have adm: "admitted w (p # files) = p # admitted w files"
          using True Some by (simp add: p admitted_Cons)
        have y: "uploaded_item e w p = new_file_item f fr dat"
          using False by (simp add: p uploaded_item_def item)
        show ?thesis
          using False by (simp add: run ev adm y)
      next
        case cloud: True
        let ?x = "new_file_item f fr dat"
        let ?w2 = "snd (call_saveItemToCloud e ?x w)"
        let ?y = "case fst (saveItemToCloud e ?x (firebase w)) of
                    Inr (Some cloudItem) \<Rightarrow> cloudItem | _ \<Rightarrow> ?x"
        have y: "uploaded_item e w p = ?y"
          by (simp add: p uploaded_item_def cloud item split: sum.splits option.splits)
        have "upload_loop e (p # files) cur w = upload_loop e files (?y # cur) ?w2"
          using True Some cloud by (simp add: p upload_loop_step)
        also have "\<dots> =
           (rev (map (uploaded_item e w) (admitted w files)) @ ?y # cur,
            ?w2\<lparr>firebase :=
                foldl (\<lambda>c p. snd (saveItemToCloud e (new_item_of p) c)) (firebase ?w2)
                  (if cloudEnabled w then admitted w files else []),
              trace := trace ?w2 @ concat (map (file_events w) files)\<rparr>)"
          by (rule rest) (simp_all add: saveItemToCloud_db_ready)
        finally have run: "upload_loop e (p # files) cur w =
           (rev (map (uploaded_item e w) (admitted w files)) @ ?y # cur,
            ?w2\<lparr>firebase :=
                foldl (\<lambda>c p. snd (saveItemToCloud e (new_item_of p) c)) (firebase ?w2)
                  (if cloudEnabled w then admitted w files else []),
              trace := trace ?w2 @ concat (map (file_events w) files)\<rparr>)" .
        have ev: "file_events w p = [CloudSave ?x]"
          using True Some cloud by (simp add: p file_events_def item)
        have adm: "admitted w (p # files) = p # admitted w files"
          using True Some by (simp add: p admitted_Cons)
        have x: "new_item_of p = ?x"
          by (simp add: p item)
        show ?thesis
          using cloud by (simp add: run ev adm y x call_saveItemToCloud_snd)
      qed
    qed
  qed
qed

subsection \<open>The runs of the four handlers\<close>

lemma case_settled:
  "(case p of (False, w2) \<Rightarrow> A w2 | (True, w2) \<Rightarrow> B w2) = (if fst p then B (snd p) else A (snd p))"
  by (cases p; cases "fst p") simp_all

lemma handleFileUpload_loop:
  "upload_loop e files (items w) (w\<lparr>isSaving := True, syncStatus := Syncing\<rparr>) =
     (rev (map (uploaded_item e w) (admitted w files)) @ items w,
      w\<lparr>isSaving := True, syncStatus := Syncing,
        firebase :=
          foldl (\<lambda>c p. snd (saveItemToCloud e (new_item_of p) c)) (firebase w)
            (if cloudEnabled w then admitted w files else []),
        trace := trace w @ concat (map (file_events w) files)\<rparr>)"
proof -
  let ?w0 = "w\<lparr>isSaving := True, syncStatus := Syncing\<rparr>"
  have same: "admitted ?w0 files = admitted w files" "file_events ?w0 = file_events w"
    "uploaded_item e ?w0 = uploaded_item e w"
    by (rule admitted_cong_items file_events_cong uploaded_item_cong; simp)+
  show ?thesis
    by (simp add: upload_loop_run same)
qed

lemma items_handleFileUpload:
  "items (handleFileUpload e files w) = rev (map (uploaded_item e w) (admitted w files)) @ items w"
proof (cases "files = []")
  case True
  then show ?thesis by (simp add: handleFileUpload_def admitted_def)
next
  case False
  then show ?thesis
    by (simp add: handleFileUpload_def handleFileUpload_loop case_settled)
qed

lemma firebase_handleFileUpload:
  "firebase (handleFileUpload e files w) =
     foldl (\<lambda>c p. snd (saveItemToCloud e (new_item_of p) c)) (firebase w)
       (if cloudEnabled w then admitted w files else [])"
proof (cases "files = []")
  case True
  then show ?thesis by (simp add: handleFileUpload_def admitted_def)
next
  case False
  then show ?thesis
    by (simp add: handleFileUpload_def handleFileUpload_loop case_settled)
qed

lemma idb_handleFileUpload:
  "files \<noteq> [] \<Longrightarrow>
     idb (handleFileUpload e files w) =
       snd (saveItemsToDB e (rev (map (uploaded_item e w) (admitted w files)) @ items w) False (idb w))"
  by (simp add: handleFileUpload_def handleFileUpload_loop case_settled)

lemma trace_handleFileUpload:
  "files \<noteq> [] \<Longrightarrow>
     trace (handleFileUpload e files w) =
       trace w @ concat (map (file_events w) files)
       @ [SetItems (rev (map (uploaded_item e w) (admitted w files)) @ items w),
          LocalSave (rev (map (uploaded_item e w) (admitted w files)) @ items w) False]
       @ (if fst (saveItemsToDB e (rev (map (uploaded_item e w) (admitted w files)) @ items w)
                   False (idb w)) = SaveFailed
          then [Notify ''Error saving items. Please try again.'' ''error''] else [])
       @ (if fst (saveItemsToDB e (rev (map (uploaded_item e w) (admitted w files)) @ items w)
                   False (idb w)) = NeverSettles
          then [] else [Notify (digits (length files) @ '' file(s) uploaded!'') ''success''])"
  by (simp add: handleFileUpload_def handleFileUpload_loop case_settled saveItems_settles
      saveItems_trace)

lemma length_handleFileUpload:
  "length (items (handleFileUpload e files w)) = length (items w) + length (admitted w files)"
  by (simp add: items_handleFileUpload)

lemma handleAddNote_rejects:
  "js_trim (noteText w) = [] \<or> length (js_trim (noteText w)) > MAX_NOTE_LENGTH
     \<or> length (items w) \<ge> MAX_ITEMS \<Longrightarrow>
   \<exists>m. handleAddNote e fr w = showNotification m ''error'' w"
  by (auto simp add: handleAddNote_def Let_def)

lemma items_handleAddNote:
  "items (handleAddNote e fr w) =
     (if js_trim (noteText w) \<noteq> [] \<and> length (js_trim (noteText w)) \<le> MAX_NOTE_LENGTH
         \<and> length (items w) < MAX_ITEMS
      then new_note_item fr (js_trim (noteText w)) # items w
      else items w)"
  by (simp add: handleAddNote_def Let_def not_le not_less case_settled)

lemma trace_handleAddNote:
  "js_trim (noteText w) \<noteq> [] \<Longrightarrow> length (js_trim (noteText w)) \<le> MAX_NOTE_LENGTH \<Longrightarrow>
   length (items w) < MAX_ITEMS \<Longrightarrow>
     trace (handleAddNote e fr w) =
       trace w
       @ (if cloudEnabled w then [CloudSave (new_note_item fr (js_trim (noteText w)))] else [])
       @ [SetItems (new_note_item fr (js_trim (noteText w)) # items w),
          LocalSave (new_note_item fr (js_trim (noteText w)) # items w) False]
       @ (if fst (saveItemsToDB e (new_note_item fr (js_trim (noteText w)) # items w) False (idb w))
               = SaveFailed
          then [Notify ''Error saving items. Please try again.'' ''error''] else [])
       @ (if fst (saveItemsToDB e (new_note_item fr (js_trim (noteText w)) # items w) False (idb w))
               = NeverSettles
          then [] else [Notify ''Note added successfully!'' ''success''])"
  by (simp add: handleAddNote_def Let_def not_le not_less case_settled saveItems_settles
      saveItems_trace)

lemma items_toggleImportant: "items (toggleImportant e i w) = toggled i (items w)"
  by (simp add: toggleImportant_def Let_def)

lemma trace_toggleImportant:
  "trace (toggleImportant e i w) =
     trace w
     @ (if cloudEnabled w
        then (case find (\<lambda>item. get_prop item ''id'' = i) (toggled i (items w)) of
                Some updatedItem \<Rightarrow> [CloudSave updatedItem]
              | None \<Rightarrow> [])
        else [])
     @ [SetItems (toggled i (items w)), LocalSave (toggled i (items w)) False]
     @ (if fst (saveItemsToDB e (toggled i (items w)) False (idb w)) = SaveFailed
        then [Notify ''Error saving items. Please try again.'' ''error''] else [])"
  by (simp add: toggleImportant_def Let_def saveItems_trace split: option.splits)

lemma trace_deleteItem:
  "confirm e \<Longrightarrow>
   trace (deleteItem e i w) =
     trace w
     @ (if cloudEnabled w
        then (case find (\<lambda>item. get_prop item ''id'' = i) (items w) of
                Some itemToDelete \<Rightarrow> [CloudDelete itemToDelete]
              | None \<Rightarrow> [])
        else [])
     @ [SetItems (filter (\<lambda>item. get_prop item ''id'' \<noteq> i) (items w)),
        LocalSave (filter (\<lambda>item. get_prop item ''id'' \<noteq> i) (items w)) True]
     @ (if fst (saveItemsToDB e (filter (\<lambda>item. get_prop item ''id'' \<noteq> i) (items w)) True (idb w))
             \<in> {SaveFailed, NeverSettles}
        then [] else [Notify ''Item deleted'' ''success''])"
proof -
  assume c: "confirm e"
  let ?w1 = "case find (\<lambda>item. get_prop item ''id'' = i) (items w) of
               Some it \<Rightarrow> if cloudEnabled w then snd (call_deleteItemFromCloud e it w) else w
             | None \<Rightarrow> w"
  let ?new = "filter (\<lambda>item. get_prop item ''id'' \<noteq> i) (items w)"
  obtain r w2 where r: "call_saveItemsToDB e ?new True (setItems ?new ?w1) = (r, w2)"
    by (cases "call_saveItemsToDB e ?new True (setItems ?new ?w1)")
  have w1: "idb ?w1 = idb w"
    "trace ?w1 = trace w
       @ (if cloudEnabled w
          then (case find (\<lambda>item. get_prop item ''id'' = i) (items w) of
                  Some itemToDelete \<Rightarrow> [CloudDelete itemToDelete]
                | None \<Rightarrow> [])
          else [])"
    by (simp_all split: option.splits)
  have r_eq: "r = fst (saveItemsToDB e ?new True (idb w))"
    using arg_cong [OF r, of fst] by (simp add: w1)
  have w2: "trace w2 = trace ?w1 @ [SetItems ?new, LocalSave ?new True]"
    using arg_cong [OF r, of "\<lambda>p. trace (snd p)"] by simp
  have "trace (deleteItem e i w) =
      trace w2 @ (if r \<in> {SaveFailed, NeverSettles} then [] else [Notify ''Item deleted'' ''success''])"
    using c r by (cases r) (simp_all add: deleteItem_def Let_def)
  then show ?thesis
    by (simp add: w2 w1 r_eq)
qed

lemma deleteItem_declined: "\<not> confirm e \<Longrightarrow> deleteItem e i w = w"
  by (simp add: deleteItem_def)

subsection \<open>Reading the cloud\<close>

text \<open>
  \<open>loadItemsFromCloud\<close> always returns: the empty array when the cloud is not ready
  or the query faults, and otherwise every document once. The comparator orders them by
  descending id when all ids are numbers, and keeps the order of the snapshot when the
  ids do not convert to numbers.
\<close>

lemma loadItemsFromCloud_returns: "\<exists>xs. loadItemsFromCloud js e c = Inr xs"
  by (simp add: loadItemsFromCloud_def split: sum.splits)

lemma loadItemsFromCloud_empty:
  "\<not> isFirebaseConfigured c \<or> \<not> init_ok c \<or> getDocs_fails e \<Longrightarrow> loadItemsFromCloud js e c = Inr []"
  by (auto simp add: loadItemsFromCloud_def loadItemsFromCloud_try_def getDocs_def db_ready_def)

lemma set_sort_insert: "set (sort_insert cmp x ys) = insert x (set ys)"
  by (induction ys) auto

lemma length_sort_insert: "length (sort_insert cmp x ys) = Suc (length ys)"
  by (induction ys) auto

lemma js_sort_same_elements: "set (js_sort cmp xs) = set xs \<and> length (js_sort cmp xs) = length xs"
  unfolding js_sort_def
  by (induction xs) (simp_all add: set_sort_insert length_sort_insert)

lemma sort_insert_keeps_NaN:
  "cmp x (hd ys) = None \<or> ys = [] \<Longrightarrow> sort_insert cmp x ys = x # ys"
  by (cases ys) auto

lemma js_sort_keeps_NaN:
  "(\<And>x y. x \<in> set xs \<Longrightarrow> cmp x y = None) \<Longrightarrow> js_sort cmp xs = xs"
  unfolding js_sort_def
  by (induction xs) (simp_all add: sort_insert_keeps_NaN)

lemma by_id_NaN: "to_number js (get_prop x ''id'') = None \<Longrightarrow> by_id js x y = None"
  by (simp add: by_id_def js_minus_def split: option.splits)

lemma loadItemsFromCloud_NaN_ids:
  assumes "db_ready c" and "\<not> getDocs_fails e"
    and "\<And>d. d \<in> set (docs c) \<Longrightarrow> to_number js (get_prop (snd d) ''id'') = None"
  shows "loadItemsFromCloud js e c = Inr (map snd (docs c))"
proof -
  have "js_sort (by_id js) (map snd (docs c)) = map snd (docs c)"
  proof (rule js_sort_keeps_NaN)
    fix x y
    assume "x \<in> set (map snd (docs c))"
    then obtain d where "d \<in> set (docs c)" and "x = snd d"
      by auto
    then show "by_id js x y = None"
      using assms(3) [of d] by (simp add: by_id_NaN)
  qed
  then show ?thesis
    using assms(1,2)
    by (simp add: loadItemsFromCloud_def loadItemsFromCloud_try_def getDocs_def)
qed

lemma loadItemsFromCloud_every_record:
  assumes "db_ready c" and "\<not> getDocs_fails e"
  shows "\<exists>xs. loadItemsFromCloud js e c = Inr xs \<and> set xs = snd ` set (docs c)
           \<and> length xs = length (docs c)"
  using assms
  by (simp add: loadItemsFromCloud_def loadItemsFromCloud_try_def getDocs_def
      js_sort_same_elements)

lemma sort_insert_desc_on:
  assumes cmp: "\<And>a b. a \<in> S \<Longrightarrow> b \<in> S \<Longrightarrow> cmp a b = Some (key b - key a)"
    and "x \<in> S" and "set ys \<subseteq> S"
    and "sorted_wrt (\<lambda>a b. key b \<le> key a) ys"
  shows "sorted_wrt (\<lambda>a b. key b \<le> key a) (sort_insert cmp x ys)"
  using assms(3,4)
proof (induction ys)
  case Nil
  then show ?case by simp
next
  case (Cons y ys)
  have c: "cmp x y = Some (key y - key x)"
    using cmp [of x y] assms(2) Cons.prems(1) by simp
  show ?case
  proof (cases "key y \<le> key x")
    case True
    with Cons.prems show ?thesis
      by (auto simp add: c)
  next
    case False
    with Cons show ?thesis
      by (auto simp add: c set_sort_insert)
  qed
qed

lemma js_sort_desc_on:
  assumes "\<And>a b. a \<in> S \<Longrightarrow> b \<in> S \<Longrightarrow> cmp a b = Some (key b - key a)"
    and "set xs \<subseteq> S"
  shows "sorted_wrt (\<lambda>a b. key b \<le> key a) (js_sort cmp xs)"
  using assms(2)
proof (induction xs)
  case Nil
  then show ?case by (simp add: js_sort_def)
next
  case (Cons x xs)
  then have "sorted_wrt (\<lambda>a b. key b \<le> key a) (foldr (sort_insert cmp) xs [])"
    by (simp add: js_sort_def)
  moreover have "set (foldr (sort_insert cmp) xs []) \<subseteq> S"
    using Cons.prems js_sort_same_elements [of cmp xs] by (simp add: js_sort_def)
  ultimately show ?case
    using Cons.prems sort_insert_desc_on [of S cmp key x "foldr (sort_insert cmp) xs []"] assms(1)
    by (simp add: js_sort_def)
qed

lemma loadItemsFromCloud_numeric_ids:
  assumes "db_ready c" and "\<not> getDocs_fails e"
    and num: "\<And>d. d \<in> set (docs c) \<Longrightarrow> \<exists>n. get_prop (snd d) ''id'' = JNum n"
  shows "\<exists>xs. loadItemsFromCloud js e c = Inr xs \<and> sorted_wrt (\<lambda>a b. num_id b \<le> num_id a) xs"
proof -
  have "sorted_wrt (\<lambda>a b. num_id b \<le> num_id a) (js_sort (by_id js) (map snd (docs c)))"
  proof (rule js_sort_desc_on [where S = "snd ` set (docs c)"])
    fix a b
    assume "a \<in> snd ` set (docs c)" and "b \<in> snd ` set (docs c)"
    then obtain n m where "get_prop a ''id'' = JNum n" and "get_prop b ''id'' = JNum m"
      using num by fastforce
    then show "by_id js a b = Some (num_id b - num_id a)"
      by (simp add: by_id_def js_minus_def num_id_def)
  qed simp
  then show ?thesis
    using assms(1,2)
    by (simp add: loadItemsFromCloud_def loadItemsFromCloud_try_def getDocs_def)
qed

text \<open>
  C9 fails on the code for the ids that this application makes. \<open>generateId\<close> returns
  strings with hyphens, for which \<open>b.id - a.id\<close> is NaN: the sort leaves the snapshot in
  the order it came, in whichever order that was, so the result is not in descending
  order of id.
\<close>

theorem loadItemsFromCloud_string_ids_unsorted:
  "loadItemsFromCloud sample_js no_faults (cloud_on\<lparr>docs := [(''a-1'', note_a), (''b-2'', note_b)]\<rparr>)
     = Inr [note_a, note_b]
   \<and> loadItemsFromCloud sample_js no_faults (cloud_on\<lparr>docs := [(''b-2'', note_b), (''a-1'', note_a)]\<rparr>)
     = Inr [note_b, note_a]
   \<and> get_prop note_a ''id'' = JStr ''a-1''
   \<and> get_prop note_b ''id'' = JStr ''b-2''"
proof -
  have ids: "get_prop note_a ''id'' = JStr ''a-1''" "get_prop note_b ''id'' = JStr ''b-2''"
    by (simp_all add: note_a_def note_b_def new_note_item_def get_prop_def fresh_a_def fresh_b_def)
  have nan: "by_id sample_js x y = None" if "get_prop x ''id'' = JStr s" for x y s
    using that by (simp add: by_id_def js_minus_def sample_js_def split: option.splits)
  have ready: "db_ready (cloud_on\<lparr>docs := ds\<rparr>)" for ds
    by (simp add: db_ready_def isFirebaseConfigured_def cloud_on_def)
  have quiet: "\<not> getDocs_fails no_faults"
    by (simp add: no_faults_def)
  show ?thesis
    by (simp add: loadItemsFromCloud_def loadItemsFromCloud_try_def getDocs_def ready quiet
        js_sort_def nan [OF ids(1)] nan [OF ids(2)] ids)
qed

subsection \<open>Promoting an inline payload\<close>

text \<open>
  For a file item with an inline payload, and when nothing faults, \<open>saveItemToCloud\<close>
  stores the payload under \<open>files/<id>_<name>\<close>, and writes and returns the record with
  the download URL as payload, \<open>isCloudStored\<close> set and \<open>updatedAt\<close> stamped.
  \<open>handleFileUpload\<close> puts that returned record into the collection.
\<close>

lemma saveItemToCloud_inline_file:
  assumes "db_ready c"
    and "get_prop item ''id'' \<noteq> JUndefined" and "get_prop item ''id'' \<noteq> JNull"
    and "get_prop item ''type'' = JStr ''file''"
    and "get_prop item ''data'' = JStr payload" and "startsWith payload ''data:''"
    and "\<not> upload_fails e item" and "getDownloadURL e (storage_path item) = Some url"
    and "\<not> setDoc_fails e item"
  shows "\<exists>x c'. saveItemToCloud e item c = (Inr (Some x), c')
           \<and> map_of (blobs c') (storage_path item) = Some payload
           \<and> get_prop x ''data'' = JStr url
           \<and> get_prop x ''isCloudStored'' = JBool True
           \<and> get_prop x ''updatedAt'' = JNum (Date_now e)
           \<and> map_of (docs c') (js_toString (get_prop item ''id'')) = Some x"
proof -
  from assms(6) have "payload \<noteq> []"
    by (auto simp add: startsWith_def)
  then have t: "truthy (get_prop item ''data'')"
    by (simp add: assms(5))
  show ?thesis
    using assms t
    by (simp add: saveItemToCloud_def Let_def get_set_prop update_conv')
qed

lemma handleFileUpload_uses_cloud_record:
  assumes "cloudEnabled w" and "fst (validateFile f w)" and "readAsDataURL f = Some dat"
    and "fst (saveItemToCloud e (new_file_item f fr dat) (firebase w)) = Inr (Some cloudItem)"
  shows "items (handleFileUpload e [(f, fr)] w) = cloudItem # items w"
  using assms by (simp add: items_handleFileUpload admitted_def uploaded_item_def new_item_of_def)

text \<open>
  C4 fails on the code at startup. With an empty cloud and one inline file item in the
  local store, \<open>loadItems\<close> uploads the item, and the cloud then holds the promoted
  record, but the value returned by \<open>saveItemToCloud\<close> is dropped: the collection
  keeps the item with its inline payload.
\<close>

theorem loadItems_drops_promoted_record:
  "fst (saveItemToCloud no_faults inline_file cloud_on) = Inr (Some promoted_file)
   \<and> get_prop inline_file ''data'' = JStr ''data:text/plain;base64,YWJj''
   \<and> get_prop promoted_file ''data'' = JStr ''https://storage.example/files/a-1_a.txt''
   \<and> get_prop promoted_file ''isCloudStored'' = JBool True
   \<and> map snd (docs (firebase (loadItems sample_js no_faults
         (world0\<lparr>firebase := cloud_on, idb := [inline_file]\<rparr>)))) = [promoted_file]
   \<and> items (loadItems sample_js no_faults
         (world0\<lparr>firebase := cloud_on, idb := [inline_file]\<rparr>)) = [inline_file]"
proof -
  let ?w = "world0\<lparr>firebase := cloud_on, idb := [inline_file]\<rparr>"
  have props: "get_prop inline_file ''id'' = JStr ''a-1''"
    "get_prop inline_file ''type'' = JStr ''file''"
    "get_prop inline_file ''name'' = JStr ''a.txt''"
    "get_prop inline_file ''data'' = JStr ''data:text/plain;base64,YWJj''"
    by (simp_all add: inline_file_def new_file_item_def get_prop_def fresh_a_def text_file_def
        sanitizeText_def replaceAll_def js_trim_def is_space_def)
  have ready: "db_ready cloud_on" "checkFirebaseConfig cloud_on"
    by (simp_all add: db_ready_def checkFirebaseConfig_def isFirebaseConfigured_def cloud_on_def)
  have empty: "docs cloud_on = []" "blobs cloud_on = []"
    by (simp_all add: cloud_on_def)
  have path: "storage_path inline_file = ''files/a-1_a.txt''"
    by (simp add: storage_path_def props)
  have save: "saveItemToCloud no_faults inline_file cloud_on
      = (Inr (Some promoted_file),
         cloud_on\<lparr>blobs := [(''files/a-1_a.txt'', ''data:text/plain;base64,YWJj'')],
                  docs := [(''a-1'', promoted_file)]\<rparr>)"
    by (simp add: saveItemToCloud_def ready props path startsWith_def Let_def no_faults_def
        promoted_file_def empty)
  have fetch: "loadItemsFromCloud sample_js no_faults cloud_on = Inr []"
    by (simp add: loadItemsFromCloud_def loadItemsFromCloud_try_def getDocs_def ready
        no_faults_def js_sort_def empty)
  have local: "loadItemsFromDB sample_js no_faults [inline_file] = Inr [inline_file]"
    by (simp add: loadItemsFromDB_def no_faults_def js_sort_def)
  have run: "loadItems_try sample_js no_faults ?w
      = (Returned,
         showNotification ''Local data uploaded to cloud!'' ''success''
           ((snd (call_saveItemToCloud no_faults inline_file
                    (setItems [inline_file] (?w\<lparr>cloudEnabled := True, syncStatus := Syncing\<rparr>))))
              \<lparr>syncStatus := Synced\<rparr>))"
    apply (simp add: loadItems_try_def Let_def)
    apply (simp add: world0_def ready fetch local call_saveItemToCloud_def save)
    done
  have p: "get_prop promoted_file ''data'' = JStr ''https://storage.example/files/a-1_a.txt''"
    "get_prop promoted_file ''isCloudStored'' = JBool True"
    by (simp_all add: promoted_file_def get_set_prop)
  show ?thesis
    by (simp add: loadItems_fields run save props p)
qed

subsection \<open>The order of the calls of a mutation\<close>

lemma js_trim_x: "js_trim ''x'' = ''x''"
  by (simp add: js_trim_def is_space_def)

text \<open>Two concrete runs of the cloud adapter and of \<open>validateFile\<close>.\<close>

lemma saveItemToCloud_inline_file_run:
  "saveItemToCloud no_faults inline_file cloud_on
     = (Inr (Some promoted_file),
        cloud_on\<lparr>blobs := [(''files/a-1_a.txt'', ''data:text/plain;base64,YWJj'')],
                 docs := [(''a-1'', promoted_file)]\<rparr>)"
proof -
  have props: "get_prop inline_file ''id'' = JStr ''a-1''"
    "get_prop inline_file ''type'' = JStr ''file''"
    "get_prop inline_file ''name'' = JStr ''a.txt''"
    "get_prop inline_file ''data'' = JStr ''data:text/plain;base64,YWJj''"
    by (simp_all add: inline_file_def new_file_item_def get_prop_def fresh_a_def text_file_def
        sanitizeText_def replaceAll_def js_trim_def is_space_def)
  have ready: "db_ready cloud_on"
    by (simp add: db_ready_def isFirebaseConfigured_def cloud_on_def)
  have empty: "docs cloud_on = []" "blobs cloud_on = []"
    by (simp_all add: cloud_on_def)
  have path: "storage_path inline_file = ''files/a-1_a.txt''"
    by (simp add: storage_path_def props)
  show ?thesis
    by (simp add: saveItemToCloud_def ready props path startsWith_def Let_def no_faults_def
        promoted_file_def empty)
qed

lemma validateFile_samples:
  assumes "items w = []"
  shows "fst (validateFile (text_file nm) w)" and "\<not> fst (validateFile big_file w)"
    and "fst (validateFile untyped_file w)"
  unfolding validateFile_ok_iff
  by (simp_all add: assms text_file_def big_file_def untyped_file_def MAX_FILE_SIZE_def
      MAX_ITEMS_def ALLOWED_FILE_TYPES_def)

lemma rejection_big_file:
  "rejection big_file
     = ''File '' @ [CHR 0x22] @ ''big.txt'' @ [CHR 0x22] @ '' is too large. Max size is 10MB.''"
  by (simp add: rejection_def big_file_def MAX_FILE_SIZE_def)

lemma new_item_of_text_file: "new_item_of (text_file ''a.txt'', fresh_a) = inline_file"
  by (simp add: new_item_of_def inline_file_def text_file_def)

lemma calls_then_notifications:
  assumes "tr = t0 @ cs @ [s, l] @ ns" and "list_all is_notification ns"
  shows "\<exists>ns. tr = t0 @ cs @ [s, l] @ ns \<and> list_all is_notification ns"
  using assms by blast

text \<open>
  C5, as the code has it. Each of the four handlers checks its input first: after a
  rejected note the state is the one before with an error notification added, after an
  unconfirmed delete or an empty file list it is the one before. Otherwise the calls
  that the handler adds to the trace are, in this order:

  \<^item> when the cloud is enabled, the cloud operation for the changed item: the new note
    for \<open>handleAddNote\<close>, the toggled item for \<open>toggleImportant\<close>, the item to
    delete for \<open>deleteItem\<close> (none when no item has the id); for
    \<open>handleFileUpload\<close>, file by file in the order of the selection, what
    \<open>file_events\<close> gives: the error of a file that \<open>validateFile\<close> rejects or that
    cannot be read, and the cloud write of the item made from a file that passed, so
    that the write of a file comes after the validation of that file and before the
    validation of the next;
  \<^item> \<open>setItems\<close> with the new collection;
  \<^item> the save of that same collection to the local store;
  \<^item> nothing but notifications after that.
\<close>

theorem mutation_step_order:
  "(js_trim (noteText w) \<noteq> [] \<and> length (js_trim (noteText w)) \<le> MAX_NOTE_LENGTH
      \<and> length (items w) < MAX_ITEMS \<longrightarrow>
      (\<exists>ns. trace (handleAddNote e fr w) =
              trace w
              @ (if cloudEnabled w then [CloudSave (new_note_item fr (js_trim (noteText w)))] else [])
              @ [SetItems (new_note_item fr (js_trim (noteText w)) # items w),
                 LocalSave (new_note_item fr (js_trim (noteText w)) # items w) False]
              @ ns
            \<and> list_all is_notification ns))
   \<and> (js_trim (noteText w) = [] \<or> length (js_trim (noteText w)) > MAX_NOTE_LENGTH
         \<or> length (items w) \<ge> MAX_ITEMS \<longrightarrow>
         (\<exists>m. handleAddNote e fr w = showNotification m ''error'' w))
   \<and> (files \<noteq> [] \<longrightarrow>
      (\<exists>ns. trace (handleFileUpload e files w) =
              trace w
              @ concat (map (file_events w) files)
              @ [SetItems (rev (map (uploaded_item e w) (admitted w files)) @ items w),
                 LocalSave (rev (map (uploaded_item e w) (admitted w files)) @ items w) False]
              @ ns
            \<and> list_all is_notification ns))
   \<and> (files = [] \<longrightarrow> handleFileUpload e files w = w)
   \<and> (\<exists>ns. trace (toggleImportant e i w) =
              trace w
              @ (if cloudEnabled w
                 then (case find (\<lambda>item. get_prop item ''id'' = i) (toggled i (items w)) of
                         Some updatedItem \<Rightarrow> [CloudSave updatedItem]
                       | None \<Rightarrow> [])
                 else [])
              @ [SetItems (toggled i (items w)), LocalSave (toggled i (items w)) False]
              @ ns
            \<and> list_all is_notification ns)
   \<and> (confirm e \<longrightarrow>
      (\<exists>ns. trace (deleteItem e i w) =
              trace w
              @ (if cloudEnabled w
                 then (case find (\<lambda>item. get_prop item ''id'' = i) (items w) of
                         Some itemToDelete \<Rightarrow> [CloudDelete itemToDelete]
                       | None \<Rightarrow> [])
                 else [])
              @ [SetItems (filter (\<lambda>item. get_prop item ''id'' \<noteq> i) (items w)),
                 LocalSave (filter (\<lambda>item. get_prop item ''id'' \<noteq> i) (items w)) True]
              @ ns
            \<and> list_all is_notification ns))
   \<and> (\<not> confirm e \<longrightarrow> deleteItem e i w = w)"
proof -
  have note_ok: "js_trim (noteText w) \<noteq> [] \<and> length (js_trim (noteText w)) \<le> MAX_NOTE_LENGTH
      \<and> length (items w) < MAX_ITEMS \<longrightarrow>
      (\<exists>ns. trace (handleAddNote e fr w) =
              trace w
              @ (if cloudEnabled w then [CloudSave (new_note_item fr (js_trim (noteText w)))] else [])
              @ [SetItems (new_note_item fr (js_trim (noteText w)) # items w),
                 LocalSave (new_note_item fr (js_trim (noteText w)) # items w) False]
              @ ns
            \<and> list_all is_notification ns)"
  proof
    assume ok: "js_trim (noteText w) \<noteq> [] \<and> length (js_trim (noteText w)) \<le> MAX_NOTE_LENGTH
      \<and> length (items w) < MAX_ITEMS"
    show "\<exists>ns. trace (handleAddNote e fr w) =
              trace w
              @ (if cloudEnabled w then [CloudSave (new_note_item fr (js_trim (noteText w)))] else [])
              @ [SetItems (new_note_item fr (js_trim (noteText w)) # items w),
                 LocalSave (new_note_item fr (js_trim (noteText w)) # items w) False]
              @ ns
            \<and> list_all is_notification ns"
      by (rule calls_then_notifications [OF trace_handleAddNote]) (simp_all add: ok)
  qed
  have note_bad: "js_trim (noteText w) = [] \<or> length (js_trim (noteText w)) > MAX_NOTE_LENGTH
         \<or> length (items w) \<ge> MAX_ITEMS \<longrightarrow>
         (\<exists>m. handleAddNote e fr w = showNotification m ''error'' w)"
    using handleAddNote_rejects [of w e fr] by blast
  have upload: "files \<noteq> [] \<longrightarrow>
      (\<exists>ns. trace (handleFileUpload e files w) =
              trace w
              @ concat (map (file_events w) files)
              @ [SetItems (rev (map (uploaded_item e w) (admitted w files)) @ items w),
                 LocalSave (rev (map (uploaded_item e w) (admitted w files)) @ items w) False]
              @ ns
            \<and> list_all is_notification ns)"
  proof
    assume ne: "files \<noteq> []"
    show "\<exists>ns. trace (handleFileUpload e files w) =
              trace w
              @ concat (map (file_events w) files)
              @ [SetItems (rev (map (uploaded_item e w) (admitted w files)) @ items w),
                 LocalSave (rev (map (uploaded_item e w) (admitted w files)) @ items w) False]
              @ ns
            \<and> list_all is_notification ns"
      by (rule calls_then_notifications [OF trace_handleFileUpload [OF ne]]) simp
  qed
  have upload_none: "files = [] \<longrightarrow> handleFileUpload e files w = w"
    by (simp add: handleFileUpload_def)
  have toggle: "\<exists>ns. trace (toggleImportant e i w) =
              trace w
              @ (if cloudEnabled w
                 then (case find (\<lambda>item. get_prop item ''id'' = i) (toggled i (items w)) of
                         Some updatedItem \<Rightarrow> [CloudSave updatedItem]
                       | None \<Rightarrow> [])
                 else [])
              @ [SetItems (toggled i (items w)), LocalSave (toggled i (items w)) False]
              @ ns
            \<and> list_all is_notification ns"
    by (rule calls_then_notifications [OF trace_toggleImportant]) simp
  have delete: "confirm e \<longrightarrow>
      (\<exists>ns. trace (deleteItem e i w) =
              trace w
              @ (if cloudEnabled w
                 then (case find (\<lambda>item. get_prop item ''id'' = i) (items w) of
                         Some itemToDelete \<Rightarrow> [CloudDelete itemToDelete]
                       | None \<Rightarrow> [])
                 else [])
              @ [SetItems (filter (\<lambda>item. get_prop item ''id'' \<noteq> i) (items w)),
                 LocalSave (filter (\<lambda>item. get_prop item ''id'' \<noteq> i) (items w)) True]
              @ ns
            \<and> list_all is_notification ns)"
  proof
    assume c: "confirm e"
    show "\<exists>ns. trace (deleteItem e i w) =
              trace w
              @ (if cloudEnabled w
                 then (case find (\<lambda>item. get_prop item ''id'' = i) (items w) of
                         Some itemToDelete \<Rightarrow> [CloudDelete itemToDelete]
                       | None \<Rightarrow> [])
                 else [])
              @ [SetItems (filter (\<lambda>item. get_prop item ''id'' \<noteq> i) (items w)),
                 LocalSave (filter (\<lambda>item. get_prop item ''id'' \<noteq> i) (items w)) True]
              @ ns
            \<and> list_all is_notification ns"
      by (rule calls_then_notifications [OF trace_deleteItem [OF c]]) simp
  qed
  have declined: "\<not> confirm e \<longrightarrow> deleteItem e i w = w"
    by (simp add: deleteItem_declined)
  from note_ok note_bad upload upload_none toggle delete declined show ?thesis
    by blast
qed

lemma mixed_selection:
  assumes "items w = []" and "cloudEnabled w" and "firebase w = cloud_on"
  shows "file_events w (big_file, fr) = [Notify (rejection big_file) ''error'']"
    and "file_events w (text_file ''a.txt'', fresh_a) = [CloudSave inline_file]"
    and "uploaded_item no_faults w (text_file ''a.txt'', fresh_a) = promoted_file"
    and "admitted w [(big_file, fr), (text_file ''a.txt'', fresh_a)] = [(text_file ''a.txt'', fresh_a)]"
    and "admitted w [(text_file ''a.txt'', fresh_a), (big_file, fr)] = [(text_file ''a.txt'', fresh_a)]"
proof -
  have read: "readAsDataURL (text_file ''a.txt'') = Some ''data:text/plain;base64,YWJj''"
    "readAsDataURL big_file \<noteq> None"
    by (simp_all add: text_file_def big_file_def)
  note v = validateFile_samples [OF assms(1)]
  show "file_events w (big_file, fr) = [Notify (rejection big_file) ''error'']"
    by (simp add: file_events_def v)
  show "file_events w (text_file ''a.txt'', fresh_a) = [CloudSave inline_file]"
    by (simp add: file_events_def v read assms(2) new_item_of_text_file)
  show "uploaded_item no_faults w (text_file ''a.txt'', fresh_a) = promoted_file"
    by (simp add: uploaded_item_def assms new_item_of_text_file saveItemToCloud_inline_file_run)
  show "admitted w [(big_file, fr), (text_file ''a.txt'', fresh_a)] = [(text_file ''a.txt'', fresh_a)]"
    by (simp add: admitted_def v read)
  show "admitted w [(text_file ''a.txt'', fresh_a), (big_file, fr)] = [(text_file ''a.txt'', fresh_a)]"
    by (simp add: admitted_def v read)
qed

theorem mutation_step_order_witness:
  "take 4 (trace (handleFileUpload no_faults
       [(big_file, fresh_b), (text_file ''a.txt'', fresh_a)]
       (world0\<lparr>cloudEnabled := True, firebase := cloud_on\<rparr>)))
     = [Notify (''File '' @ [CHR 0x22] @ ''big.txt'' @ [CHR 0x22] @ '' is too large. Max size is 10MB.'')
          ''error'',
        CloudSave inline_file, SetItems [promoted_file], LocalSave [promoted_file] False]
   \<and> confirm no_faults
   \<and> take 3 (trace (deleteItem no_faults (JStr ''a-1'')
        (world0\<lparr>items := [note_a], cloudEnabled := True, firebase := cloud_on\<rparr>)))
      = [CloudDelete note_a, SetItems [], LocalSave [] True]"
proof -
  let ?w = "world0\<lparr>cloudEnabled := True, firebase := cloud_on\<rparr>"
  let ?v = "world0\<lparr>items := [note_a], cloudEnabled := True, firebase := cloud_on\<rparr>"
  let ?files = "[(big_file, fresh_b), (text_file ''a.txt'', fresh_a)]"
  have w: "items ?w = []" "cloudEnabled ?w" "firebase ?w = cloud_on" "trace ?w = []"
    by (simp_all add: world0_def)
  have v: "items ?v = [note_a]" "cloudEnabled ?v" "trace ?v = []"
    by (simp_all add: world0_def)
  have id: "get_prop note_a ''id'' = JStr ''a-1''"
    by (simp add: note_a_def new_note_item_def get_prop_def fresh_a_def)
  have c: "confirm no_faults"
    by (simp add: no_faults_def)
  note sel = mixed_selection [OF w(1) w(2) w(3)]
  from mutation_step_order [where w = ?w and e = no_faults and files = ?files]
  obtain ns where "trace (handleFileUpload no_faults ?files ?w) =
      trace ?w @ concat (map (file_events ?w) ?files)
      @ [SetItems (rev (map (uploaded_item no_faults ?w) (admitted ?w ?files)) @ items ?w),
         LocalSave (rev (map (uploaded_item no_faults ?w) (admitted ?w ?files)) @ items ?w) False]
      @ ns"
    by blast
  then have one: "take 4 (trace (handleFileUpload no_faults ?files ?w))
     = [Notify (''File '' @ [CHR 0x22] @ ''big.txt'' @ [CHR 0x22] @ '' is too large. Max size is 10MB.'')
          ''error'',
        CloudSave inline_file, SetItems [promoted_file], LocalSave [promoted_file] False]"
    by (simp add: w(1) w(4) sel rejection_big_file)
  from mutation_step_order [where w = ?v and e = no_faults and i = "JStr ''a-1''"] c
  obtain ms where "trace (deleteItem no_faults (JStr ''a-1'') ?v) =
      trace ?v
      @ (if cloudEnabled ?v
         then (case find (\<lambda>item. get_prop item ''id'' = JStr ''a-1'') (items ?v) of
                 Some itemToDelete \<Rightarrow> [CloudDelete itemToDelete]
               | None \<Rightarrow> [])
         else [])
      @ [SetItems (filter (\<lambda>item. get_prop item ''id'' \<noteq> JStr ''a-1'') (items ?v)),
         LocalSave (filter (\<lambda>item. get_prop item ''id'' \<noteq> JStr ''a-1'') (items ?v)) True]
      @ ms"
    by blast
  then have two: "take 3 (trace (deleteItem no_faults (JStr ''a-1'') ?v))
      = [CloudDelete note_a, SetItems [], LocalSave [] True]"
    by (simp add: v id)
  from one c two show ?thesis
    by blast
qed

text \<open>
  C5 as stated puts the publication before the cloud write. Adding the note \<open>x\<close> with
  the cloud enabled calls \<open>saveItemToCloud\<close> first and \<open>setItems\<close> after it.
\<close>

theorem handleAddNote_order_counterexample:
  "trace (handleAddNote no_faults fresh_a
            (world0\<lparr>noteText := ''x'', cloudEnabled := True, firebase := cloud_on\<rparr>))
     = [CloudSave note_a, SetItems [note_a], LocalSave [note_a] False,
        Notify ''Note added successfully!'' ''success'']"
proof -
  let ?w = "world0\<lparr>noteText := ''x'', cloudEnabled := True, firebase := cloud_on\<rparr>"
  have fields: "noteText ?w = ''x''" "items ?w = []" "cloudEnabled ?w" "trace ?w = []" "idb ?w = []"
    by (simp_all add: world0_def)
  have ok: "saveItemsToDB no_faults [note_a] False [] = (Saved, [note_a])"
    by (simp add: saveItemsToDB_def no_faults_def addable_def note_a_def new_note_item_def
        get_prop_def)
  have valid: "js_trim (noteText ?w) \<noteq> []" "length (js_trim (noteText ?w)) \<le> MAX_NOTE_LENGTH"
    "length (items ?w) < MAX_ITEMS"
    by (simp_all add: fields js_trim_x MAX_NOTE_LENGTH_def MAX_ITEMS_def)
  show ?thesis
    by (simp add: trace_handleAddNote [OF valid] fields js_trim_x note_a_def [symmetric] ok)
qed

subsection \<open>The item ceiling in a file upload\<close>

lemma length_many_notes: "length (many_notes n) = n"
  by (simp add: many_notes_def)

text \<open>
  C6 fails on the code. \<open>validateFile\<close> compares the state \<open>items\<close> with
  \<open>MAX_ITEMS\<close>, and the loop of \<open>handleFileUpload\<close> adds to \<open>currentItems\<close>
  without setting that state: with 499 items, two valid files chosen together both pass
  and the collection ends with 501 items.
\<close>

theorem handleFileUpload_exceeds_MAX_ITEMS:
  "length (items (world0\<lparr>items := many_notes 499\<rparr>)) = 499
   \<and> length (items (handleFileUpload no_faults
         [(text_file ''a.txt'', fresh_a), (text_file ''b.txt'', fresh_b)]
         (world0\<lparr>items := many_notes 499\<rparr>))) = 501
   \<and> MAX_ITEMS < 501"
proof -
  let ?w = "world0\<lparr>items := many_notes 499\<rparr>"
  have len: "length (items ?w) = 499"
    by (simp add: world0_def length_many_notes)
  have ok: "fst (validateFile (text_file nm) ?w)" for nm
    unfolding validateFile_ok_iff len
    by (simp add: text_file_def MAX_FILE_SIZE_def MAX_ITEMS_def ALLOWED_FILE_TYPES_def)
  have adm: "length (admitted ?w [(text_file ''a.txt'', fresh_a), (text_file ''b.txt'', fresh_b)]) = 2"
    using ok by (simp add: admitted_def text_file_def)
  show ?thesis
    using len adm by (simp add: length_handleFileUpload MAX_ITEMS_def)
qed

subsection \<open>The admission policy\<close>

lemma save_directly_props:
  "save_directly e item c = (Inr (Some x), c') \<Longrightarrow> k \<noteq> ''updatedAt'' \<Longrightarrow>
     get_prop x k = get_prop item k"
  by (auto simp add: save_directly_def Let_def get_set_prop split: if_splits)

lemma saveItemToCloud_props:
  assumes "saveItemToCloud e item c = (Inr (Some x), c')"
    and "k \<noteq> ''data''" and "k \<noteq> ''isCloudStored''" and "k \<noteq> ''updatedAt''"
  shows "get_prop x k = get_prop item k"
proof (cases "db_ready c \<and> get_prop item ''id'' \<noteq> JUndefined \<and> get_prop item ''id'' \<noteq> JNull
    \<and> get_prop item ''type'' = JStr ''file'' \<and> truthy (get_prop item ''data'')")
  case False
  then show ?thesis
    using assms save_directly_props [of e item c x c' k]
    by (auto simp add: saveItemToCloud_def split: if_splits)
next
  case True
  show ?thesis
  proof (cases "get_prop item ''data''")
    case (JStr payload)
    show ?thesis
    proof (cases "startsWith payload ''data:''")
      case False
      then show ?thesis
        using assms True JStr save_directly_props [of e item c x c' k]
        by (simp add: saveItemToCloud_def)
    next
      case sw: True
      then show ?thesis
        using assms True JStr
        by (auto simp add: saveItemToCloud_def Let_def get_set_prop
            split: if_splits option.splits)
    qed
  qed (use assms True in \<open>simp_all add: saveItemToCloud_def\<close>)
qed

lemma new_file_item_props:
  "get_prop (new_file_item f fr dat) ''type'' = JStr ''file''"
  "get_prop (new_file_item f fr dat) ''size'' = JNum (file_size f)"
  "get_prop (new_file_item f fr dat) ''fileType''
     = JStr (if file_type f \<noteq> [] then file_type f else ''application/octet-stream'')"
  by (simp_all add: new_file_item_def get_prop_def)

lemma stored_item_props:
  "get_prop (case fst (saveItemToCloud e item c) of Inr (Some cloudItem) \<Rightarrow> cloudItem | _ \<Rightarrow> item) k
     = get_prop item k"
  if "k \<noteq> ''data''" and "k \<noteq> ''isCloudStored''" and "k \<noteq> ''updatedAt''"
  using saveItemToCloud_props [of e item c _ "snd (saveItemToCloud e item c)" k] that
  by (cases "saveItemToCloud e item c") (auto split: sum.splits option.splits)

lemma uploaded_item_props:
  assumes "readAsDataURL (fst p) \<noteq> None"
  shows "get_prop (uploaded_item e w p) ''type'' = JStr ''file''"
    and "get_prop (uploaded_item e w p) ''size'' = JNum (file_size (fst p))"
    and "get_prop (uploaded_item e w p) ''fileType''
          = JStr (if file_type (fst p) \<noteq> [] then file_type (fst p) else ''application/octet-stream'')"
proof -
  from assms obtain dat where item: "new_item_of p = new_file_item (fst p) (snd p) dat"
    by (auto simp add: new_item_of_def)
  have same: "get_prop (uploaded_item e w p) k = get_prop (new_item_of p) k"
    if "k \<noteq> ''data''" and "k \<noteq> ''isCloudStored''" and "k \<noteq> ''updatedAt''" for k
    using stored_item_props [where e = e and item = "new_item_of p" and c = "firebase w", OF that]
    by (simp add: uploaded_item_def)
  show "get_prop (uploaded_item e w p) ''type'' = JStr ''file''"
    by (simp add: same item new_file_item_props)
  show "get_prop (uploaded_item e w p) ''size'' = JNum (file_size (fst p))"
    by (simp add: same item new_file_item_props)
  show "get_prop (uploaded_item e w p) ''fileType''
          = JStr (if file_type (fst p) \<noteq> [] then file_type (fst p) else ''application/octet-stream'')"
    by (simp add: same item new_file_item_props)
qed

lemma cloud_saves_of_files:
  "filter is_cloud_save (concat (map (file_events w) files)) =
     (if cloudEnabled w then map (\<lambda>p. CloudSave (new_item_of p)) (admitted w files) else [])"
proof (induction files)
  case Nil
  show ?case by (simp add: admitted_def)
next
  case (Cons p files)
  obtain f fr where p: "p = (f, fr)" by (cases p)
  have one: "filter is_cloud_save (file_events w (f, fr)) =
      (if cloudEnabled w \<and> fst (validateFile f w) \<and> readAsDataURL f \<noteq> None
       then [CloudSave (new_item_of (f, fr))] else [])"
    by (simp add: file_events_def split: option.splits)
  show ?case
    using Cons.IH by (auto simp add: one p admitted_Cons)
qed

lemma cloud_saves_of_handleFileUpload:
  "filter is_cloud_save (trace (handleFileUpload e files w)) =
     filter is_cloud_save (trace w)
     @ (if cloudEnabled w then map (\<lambda>p. CloudSave (new_item_of p)) (admitted w files) else [])"
proof (cases "files = []")
  case True
  then show ?thesis by (simp add: handleFileUpload_def admitted_def)
next
  case False
  show ?thesis
    by (simp add: trace_handleFileUpload [OF False] cloud_saves_of_files)
qed

lemma validateFile_big_file: "\<not> fst (validateFile big_file w)"
  unfolding validateFile_ok_iff by (simp add: big_file_def MAX_FILE_SIZE_def)

text \<open>
  C7, as the code has it.

  Files. The collection after \<open>handleFileUpload\<close> is the one before with, in front
  of it, one item for each admitted file of the selection, a file being admitted when
  \<open>validateFile\<close> accepts it and it can be read. An admitted file is one of the
  selection, has at most \<open>MAX_FILE_SIZE\<close> bytes and a media type that is in the
  allow-list or empty, and its item is a file item with that size and that type
  (\<open>application/octet-stream\<close> for the empty type). A file that \<open>validateFile\<close>
  rejects is not admitted, and all it adds to the trace is the error notification with
  its message. The cloud after the run is the cloud before, written once for each
  admitted file when the cloud is enabled and not at all otherwise; the cloud writes in
  the trace of the run are those of the items of the admitted files, in their order.
  For a selection that is not empty the run then sets the collection and saves it to
  the local store, whether or not any file was admitted, and ends with notifications.

  Notes. The collection after \<open>handleAddNote\<close> is the one before, or the one before
  with the note of the trimmed text in front, and then that text is not empty and at
  most \<open>MAX_NOTE_LENGTH\<close> long. For a text that is empty after trimming or longer, or
  a collection that holds \<open>MAX_ITEMS\<close> items, the state after the run is the state
  before with one error notification added: nothing is written to either store.
\<close>

theorem admission_policy:
  "items (handleFileUpload e files w)
     = rev (map (uploaded_item e w) (admitted w files)) @ items w
   \<and> (\<forall>p \<in> set (admitted w files).
        p \<in> set files
        \<and> file_size (fst p) \<le> MAX_FILE_SIZE
        \<and> (file_type (fst p) = [] \<or> file_type (fst p) \<in> set ALLOWED_FILE_TYPES)
        \<and> get_prop (uploaded_item e w p) ''type'' = JStr ''file''
        \<and> get_prop (uploaded_item e w p) ''size'' = JNum (file_size (fst p))
        \<and> get_prop (uploaded_item e w p) ''fileType''
            = JStr (if file_type (fst p) \<noteq> [] then file_type (fst p)
                    else ''application/octet-stream''))
   \<and> (\<forall>p \<in> set files. \<not> fst (validateFile (fst p) w) \<longrightarrow>
        p \<notin> set (admitted w files)
        \<and> file_events w p = [Notify (rejection (fst p)) ''error''])
   \<and> firebase (handleFileUpload e files w)
       = foldl (\<lambda>c p. snd (saveItemToCloud e (new_item_of p) c)) (firebase w)
           (if cloudEnabled w then admitted w files else [])
   \<and> filter is_cloud_save (trace (handleFileUpload e files w))
       = filter is_cloud_save (trace w)
         @ (if cloudEnabled w then map (\<lambda>p. CloudSave (new_item_of p)) (admitted w files) else [])
   \<and> (files \<noteq> [] \<longrightarrow>
        (\<exists>ns. trace (handleFileUpload e files w) =
                trace w
                @ concat (map (file_events w) files)
                @ [SetItems (rev (map (uploaded_item e w) (admitted w files)) @ items w),
                   LocalSave (rev (map (uploaded_item e w) (admitted w files)) @ items w) False]
                @ ns
              \<and> list_all is_notification ns))
   \<and> (items (handleAddNote e fr w) = items w
        \<or> (items (handleAddNote e fr w) = new_note_item fr (js_trim (noteText w)) # items w
            \<and> js_trim (noteText w) \<noteq> []
            \<and> length (js_trim (noteText w)) \<le> MAX_NOTE_LENGTH))
   \<and> (js_trim (noteText w) = [] \<or> length (js_trim (noteText w)) > MAX_NOTE_LENGTH
         \<or> length (items w) \<ge> MAX_ITEMS \<longrightarrow>
         (\<exists>m. handleAddNote e fr w = showNotification m ''error'' w))"
proof -
  have coll: "items (handleFileUpload e files w)
     = rev (map (uploaded_item e w) (admitted w files)) @ items w"
    by (rule items_handleFileUpload)
  have adm: "\<forall>p \<in> set (admitted w files).
        p \<in> set files
        \<and> file_size (fst p) \<le> MAX_FILE_SIZE
        \<and> (file_type (fst p) = [] \<or> file_type (fst p) \<in> set ALLOWED_FILE_TYPES)
        \<and> get_prop (uploaded_item e w p) ''type'' = JStr ''file''
        \<and> get_prop (uploaded_item e w p) ''size'' = JNum (file_size (fst p))
        \<and> get_prop (uploaded_item e w p) ''fileType''
            = JStr (if file_type (fst p) \<noteq> [] then file_type (fst p)
                    else ''application/octet-stream'')"
  proof
    fix p
    assume "p \<in> set (admitted w files)"
    then have mem: "p \<in> set files" and ok: "fst (validateFile (fst p) w)"
      and read: "readAsDataURL (fst p) \<noteq> None"
      by (auto simp add: admitted_def)
    from ok have "file_size (fst p) \<le> MAX_FILE_SIZE"
      and "file_type (fst p) = [] \<or> file_type (fst p) \<in> set ALLOWED_FILE_TYPES"
      by (simp_all add: validateFile_ok_iff)
    with mem uploaded_item_props [OF read, of e w]
    show "p \<in> set files
        \<and> file_size (fst p) \<le> MAX_FILE_SIZE
        \<and> (file_type (fst p) = [] \<or> file_type (fst p) \<in> set ALLOWED_FILE_TYPES)
        \<and> get_prop (uploaded_item e w p) ''type'' = JStr ''file''
        \<and> get_prop (uploaded_item e w p) ''size'' = JNum (file_size (fst p))
        \<and> get_prop (uploaded_item e w p) ''fileType''
            = JStr (if file_type (fst p) \<noteq> [] then file_type (fst p)
                    else ''application/octet-stream'')"
      by blast
  qed
  have rej: "\<forall>p \<in> set files. \<not> fst (validateFile (fst p) w) \<longrightarrow>
        p \<notin> set (admitted w files)
        \<and> file_events w p = [Notify (rejection (fst p)) ''error'']"
    by (auto simp add: admitted_def file_events_def)
  have cloud: "firebase (handleFileUpload e files w)
       = foldl (\<lambda>c p. snd (saveItemToCloud e (new_item_of p) c)) (firebase w)
           (if cloudEnabled w then admitted w files else [])"
    by (rule firebase_handleFileUpload)
  have writes: "filter is_cloud_save (trace (handleFileUpload e files w))
       = filter is_cloud_save (trace w)
         @ (if cloudEnabled w then map (\<lambda>p. CloudSave (new_item_of p)) (admitted w files) else [])"
    by (rule cloud_saves_of_handleFileUpload)
  have run: "files \<noteq> [] \<longrightarrow>
        (\<exists>ns. trace (handleFileUpload e files w) =
                trace w
                @ concat (map (file_events w) files)
                @ [SetItems (rev (map (uploaded_item e w) (admitted w files)) @ items w),
                   LocalSave (rev (map (uploaded_item e w) (admitted w files)) @ items w) False]
                @ ns
              \<and> list_all is_notification ns)"
  proof
    assume ne: "files \<noteq> []"
    show "\<exists>ns. trace (handleFileUpload e files w) =
                trace w
                @ concat (map (file_events w) files)
                @ [SetItems (rev (map (uploaded_item e w) (admitted w files)) @ items w),
                   LocalSave (rev (map (uploaded_item e w) (admitted w files)) @ items w) False]
                @ ns
              \<and> list_all is_notification ns"
      by (rule calls_then_notifications [OF trace_handleFileUpload [OF ne]]) simp
  qed
  have note_ok: "items (handleAddNote e fr w) = items w
        \<or> (items (handleAddNote e fr w) = new_note_item fr (js_trim (noteText w)) # items w
            \<and> js_trim (noteText w) \<noteq> []
            \<and> length (js_trim (noteText w)) \<le> MAX_NOTE_LENGTH)"
    by (simp add: items_handleAddNote)
  have note_bad: "js_trim (noteText w) = [] \<or> length (js_trim (noteText w)) > MAX_NOTE_LENGTH
         \<or> length (items w) \<ge> MAX_ITEMS \<longrightarrow>
         (\<exists>m. handleAddNote e fr w = showNotification m ''error'' w)"
    using handleAddNote_rejects [of w e fr] by blast
  from coll adm rej cloud writes run note_ok note_bad show ?thesis
    by blast
qed

theorem admission_policy_witness:
  "fst (validateFile (text_file ''a.txt'') (world0\<lparr>cloudEnabled := True, firebase := cloud_on\<rparr>))
   \<and> \<not> fst (validateFile big_file (world0\<lparr>cloudEnabled := True, firebase := cloud_on\<rparr>))
   \<and> items (handleFileUpload no_faults [(text_file ''a.txt'', fresh_a), (big_file, fresh_b)]
        (world0\<lparr>cloudEnabled := True, firebase := cloud_on\<rparr>)) = [promoted_file]
   \<and> get_prop promoted_file ''fileType'' = JStr ''text/plain''
   \<and> filter is_cloud_save
        (trace (handleFileUpload no_faults [(text_file ''a.txt'', fresh_a), (big_file, fresh_b)]
           (world0\<lparr>cloudEnabled := True, firebase := cloud_on\<rparr>))) = [CloudSave inline_file]
   \<and> docs (firebase (handleFileUpload no_faults [(text_file ''a.txt'', fresh_a), (big_file, fresh_b)]
        (world0\<lparr>cloudEnabled := True, firebase := cloud_on\<rparr>))) = [(''a-1'', promoted_file)]
   \<and> (\<exists>m. handleAddNote no_faults fresh_a world0 = showNotification m ''error'' world0)"
proof -
  let ?w = "world0\<lparr>cloudEnabled := True, firebase := cloud_on\<rparr>"
  let ?files = "[(text_file ''a.txt'', fresh_a), (big_file, fresh_b)]"
  have w: "items ?w = []" "cloudEnabled ?w" "firebase ?w = cloud_on" "trace ?w = []"
    by (simp_all add: world0_def)
  note sel = mixed_selection [OF w(1) w(2) w(3)]
  note v = validateFile_samples [OF w(1)]
  have tf: "file_type (text_file ''a.txt'') = ''text/plain''"
    by (simp add: text_file_def)
  have empty: "js_trim (noteText world0) = []"
    by (simp add: world0_def js_trim_def)
  note pol = admission_policy [where w = ?w and e = no_faults and files = ?files and fr = fresh_a]
  from pol have coll: "items (handleFileUpload no_faults ?files ?w) = [promoted_file]"
    by (simp add: sel w)
  from pol have "\<forall>p \<in> set (admitted ?w ?files).
      get_prop (uploaded_item no_faults ?w p) ''fileType''
        = JStr (if file_type (fst p) \<noteq> [] then file_type (fst p) else ''application/octet-stream'')"
    by blast
  then have ty: "get_prop promoted_file ''fileType'' = JStr ''text/plain''"
    by (simp add: sel tf)
  from pol have writes: "filter is_cloud_save (trace (handleFileUpload no_faults ?files ?w))
      = [CloudSave inline_file]"
    by (simp add: sel w new_item_of_text_file)
  from pol have "firebase (handleFileUpload no_faults ?files ?w)
      = foldl (\<lambda>c p. snd (saveItemToCloud no_faults (new_item_of p) c)) (firebase ?w)
           (if cloudEnabled ?w then admitted ?w ?files else [])"
    by blast
  then have cloud: "docs (firebase (handleFileUpload no_faults ?files ?w)) = [(''a-1'', promoted_file)]"
    by (simp add: sel w new_item_of_text_file saveItemToCloud_inline_file_run)
  from admission_policy [where w = world0 and e = no_faults and fr = fresh_a] empty
  have note_bad: "\<exists>m. handleAddNote no_faults fresh_a world0 = showNotification m ''error'' world0"
    by blast
  from v(1) validateFile_big_file coll ty writes cloud note_bad show ?thesis
    by blast
qed

text \<open>
  C7 as stated fails twice. A file whose media type is empty passes \<open>validateFile\<close>
  and is stored with a type outside the allow-list. And a rejected file does not stop
  the handler: after the loop it saves the collection to the local store, which here
  held nothing.
\<close>

theorem admission_policy_counterexample:
  "file_type untyped_file \<notin> set ALLOWED_FILE_TYPES
   \<and> map (\<lambda>x. get_prop x ''fileType'')
        (items (handleFileUpload no_faults [(untyped_file, fresh_a)] world0))
       = [JStr ''application/octet-stream'']
   \<and> ''application/octet-stream'' \<notin> set ALLOWED_FILE_TYPES
   \<and> \<not> fst (validateFile big_file (world0\<lparr>items := [note_b]\<rparr>))
   \<and> idb (world0\<lparr>items := [note_b]\<rparr>) = []
   \<and> idb (handleFileUpload no_faults [(big_file, fresh_a)] (world0\<lparr>items := [note_b]\<rparr>)) = [note_b]"
proof -
  have a: "file_type untyped_file \<notin> set ALLOWED_FILE_TYPES"
    "''application/octet-stream'' \<notin> set ALLOWED_FILE_TYPES"
    by (simp_all add: untyped_file_def ALLOWED_FILE_TYPES_def)
  have w0: "items world0 = []" "\<not> cloudEnabled world0"
    by (simp_all add: world0_def)
  have read: "readAsDataURL untyped_file \<noteq> None"
    by (simp add: untyped_file_def)
  have adm: "admitted world0 [(untyped_file, fresh_a)] = [(untyped_file, fresh_a)]"
    using validateFile_samples(3) [OF w0(1)] read by (simp add: admitted_def)
  have b: "map (\<lambda>x. get_prop x ''fileType'')
        (items (handleFileUpload no_faults [(untyped_file, fresh_a)] world0))
       = [JStr ''application/octet-stream'']"
    using uploaded_item_props(3) [of "(untyped_file, fresh_a)" no_faults world0] read
    by (simp add: items_handleFileUpload adm w0) (simp add: untyped_file_def)
  have c: "idb (world0\<lparr>items := [note_b]\<rparr>) = []" "items (world0\<lparr>items := [note_b]\<rparr>) = [note_b]"
    by (simp_all add: world0_def)
  have none: "admitted (world0\<lparr>items := [note_b]\<rparr>) [(big_file, fresh_a)] = []"
    by (simp add: admitted_def validateFile_big_file)
  have sv: "saveItemsToDB no_faults [note_b] False [] = (Saved, [note_b])"
    by (simp add: saveItemsToDB_def no_faults_def addable_def note_b_def new_note_item_def
        get_prop_def)
  have d: "idb (handleFileUpload no_faults [(big_file, fresh_a)] (world0\<lparr>items := [note_b]\<rparr>)) = [note_b]"
    by (simp add: idb_handleFileUpload none c sv)
  from a b validateFile_big_file c(1) d show ?thesis
    by blast
qed

subsection \<open>Toggling the important flag\<close>

text \<open>
  C10. \<open>toggleImportant(id)\<close> keeps the length and the order of the collection. At
  each position, an item with that id gets \<open>important\<close> set to the negation of its
  old value and keeps every other property (id, type, content, data, name, size,
  fileType, createdAt); an item with another id is unchanged. When no item has the id,
  the collection is the one before.
\<close>

theorem toggleImportant_frame:
  "length (items (toggleImportant e i w)) = length (items w)
   \<and> (\<forall>n < length (items w).
         (get_prop (items w ! n) ''id'' = i \<longrightarrow>
            get_prop (items (toggleImportant e i w) ! n) ''important''
              = JBool (\<not> truthy (get_prop (items w ! n) ''important''))
            \<and> (\<forall>k. k \<noteq> ''important'' \<longrightarrow>
                  get_prop (items (toggleImportant e i w) ! n) k = get_prop (items w ! n) k))
         \<and> (get_prop (items w ! n) ''id'' \<noteq> i \<longrightarrow> items (toggleImportant e i w) ! n = items w ! n))
   \<and> ((\<forall>item \<in> set (items w). get_prop item ''id'' \<noteq> i) \<longrightarrow>
         items (toggleImportant e i w) = items w)"
proof -
  have eq: "items (toggleImportant e i w) = toggled i (items w)"
    by (rule items_toggleImportant)
  have len: "length (toggled i (items w)) = length (items w)"
    by (simp add: toggled_def)
  have pos: "\<forall>n < length (items w).
         (get_prop (items w ! n) ''id'' = i \<longrightarrow>
            get_prop (toggled i (items w) ! n) ''important''
              = JBool (\<not> truthy (get_prop (items w ! n) ''important''))
            \<and> (\<forall>k. k \<noteq> ''important'' \<longrightarrow>
                  get_prop (toggled i (items w) ! n) k = get_prop (items w ! n) k))
         \<and> (get_prop (items w ! n) ''id'' \<noteq> i \<longrightarrow> toggled i (items w) ! n = items w ! n)"
    by (simp add: toggled_def get_set_prop)
  have absent: "(\<forall>item \<in> set (items w). get_prop item ''id'' \<noteq> i) \<longrightarrow> toggled i (items w) = items w"
    by (simp add: toggled_def map_idI)
  from len pos absent show ?thesis
    unfolding eq by blast
qed

theorem toggleImportant_frame_witness:
  "length (items (toggleImportant no_faults (JStr ''a-1'') (world0\<lparr>items := [note_b, note_a]\<rparr>))) = 2
   \<and> get_prop (items (toggleImportant no_faults (JStr ''a-1'') (world0\<lparr>items := [note_b, note_a]\<rparr>)) ! 1)
        ''important'' = JBool True
   \<and> get_prop (items (toggleImportant no_faults (JStr ''a-1'') (world0\<lparr>items := [note_b, note_a]\<rparr>)) ! 1)
        ''content'' = JStr ''x''
   \<and> items (toggleImportant no_faults (JStr ''a-1'') (world0\<lparr>items := [note_b, note_a]\<rparr>)) ! 0 = note_b
   \<and> items (toggleImportant no_faults (JStr ''zz'') (world0\<lparr>items := [note_b, note_a]\<rparr>))
        = [note_b, note_a]"
proof -
  let ?w = "world0\<lparr>items := [note_b, note_a]\<rparr>"
  have its: "items ?w = [note_b, note_a]"
    by (simp add: world0_def)
  have ids: "get_prop note_a ''id'' = JStr ''a-1''" "get_prop note_b ''id'' = JStr ''b-2''"
    by (simp_all add: note_a_def note_b_def new_note_item_def get_prop_def fresh_a_def fresh_b_def)
  have old: "get_prop note_a ''important'' = JBool False" "get_prop note_a ''content'' = JStr ''x''"
    by (simp_all add: note_a_def new_note_item_def get_prop_def)
  note len = toggleImportant_frame [of no_faults "JStr ''a-1''" ?w, THEN conjunct1]
  note pos = toggleImportant_frame [of no_faults "JStr ''a-1''" ?w, THEN conjunct2,
      THEN conjunct1, rule_format]
  note absent = toggleImportant_frame [of no_faults "JStr ''zz''" ?w, THEN conjunct2,
      THEN conjunct2]
  from len pos [of 1] pos [of 0] absent show ?thesis
    by (simp add: its ids old)
qed

end
